theory Spec2Isabelle
  imports Complex_Main "HOL-Library.Log_Nat"
begin

section \<open>Strings\<close>

text \<open>
  A JavaScript string is a sequence of UTF-16 code units; \<open>length\<close>, \<open>includes\<close>,
  \<open>split\<close> and \<open>===\<close> all work on code units. The keywords of the program are
  Chinese characters of the basic plane, one code unit each, written here by their
  code point (\<open>0x8FA3\<close> is the character for "hot").
\<close>

type_synonym jstring = "nat list"

definition ascii :: "string \<Rightarrow> jstring" where
  "ascii s = map of_char s"

text \<open>\<open>t.startsWith(p)\<close> and \<open>s.includes(t)\<close> of \<open>String.prototype\<close>.\<close>

fun startsWith :: "jstring \<Rightarrow> jstring \<Rightarrow> bool" where
  "startsWith s [] = True"
| "startsWith [] (p # ps) = False"
| "startsWith (c # cs) (p # ps) = (c = p \<and> startsWith cs ps)"

fun str_includes :: "jstring \<Rightarrow> jstring \<Rightarrow> bool" where
  "str_includes [] t = (t = [])"
| "str_includes (c # cs) t = (startsWith (c # cs) t \<or> str_includes cs t)"

text \<open>\<open>xs.includes(x)\<close> of \<open>Array.prototype\<close>, on arrays of strings.\<close>

definition arr_includes :: "jstring list \<Rightarrow> jstring \<Rightarrow> bool" where
  "arr_includes xs x = (x \<in> set xs)"

text \<open>
  \<open>String.prototype.trim\<close> removes the white space and line terminators of
  ECMAScript from both ends.
\<close>

definition js_whitespace :: "nat \<Rightarrow> bool" where
  "js_whitespace c =
     (c \<in> {0x09, 0x0A, 0x0B, 0x0C, 0x0D, 0x20, 0xA0, 0x1680, 0x2028, 0x2029, 0x202F,
            0x205F, 0x3000, 0xFEFF} \<or> (0x2000 \<le> c \<and> c \<le> 0x200A))"

definition trim :: "jstring \<Rightarrow> jstring" where
  "trim s = rev (dropWhile js_whitespace (rev (dropWhile js_whitespace s)))"

text \<open>
  \<open>s.split(re)\<close> for a regular expression that is one character class, and
  \<open>s.split(sep)\<close> for a string separator. Both return \<open>['''']\<close> on the empty
  string.
\<close>

fun split_class :: "(nat \<Rightarrow> bool) \<Rightarrow> jstring \<Rightarrow> jstring list" where
  "split_class sep [] = [[]]"
| "split_class sep (c # cs) =
     (if sep c then [] # split_class sep cs
      else (case split_class sep cs of
              x # xs \<Rightarrow> (c # x) # xs
            | [] \<Rightarrow> [[c]]))"

fun split_str :: "jstring \<Rightarrow> jstring \<Rightarrow> jstring list" where
  "split_str sep [] = (if sep = [] then [] else [[]])"
| "split_str sep (c # cs) =
     (if sep = [] then [c] # split_str sep cs
      else if startsWith (c # cs) sep then [] # split_str sep (drop (length sep - 1) cs)
      else (case split_str sep cs of
              x # xs \<Rightarrow> (c # x) # xs
            | [] \<Rightarrow> [[c]]))"

text \<open>\<open>s || ''''\<close> for an optional string.\<close>

definition orEmpty :: "jstring option \<Rightarrow> jstring" where
  "orEmpty s = (case s of None \<Rightarrow> [] | Some t \<Rightarrow> t)"

section \<open>Data model (types)\<close>

record RawContent =
  description :: "jstring option"
  ingredientsAndTools :: "jstring option"
  calculation :: "jstring option"
  steps :: "jstring option"
  additionalContent :: "jstring option"

record RecipeTags =
  taste :: "jstring list"
  cookingStyle :: "jstring list"
  season :: "jstring list"
  suitability :: "jstring list"

record RawRecipe =
  dishName :: jstring
  sourceFile :: jstring
  contentHash :: jstring
  category :: jstring
  rawContent :: RawContent

text \<open>
  \<open>ProcessedRecipe extends RawRecipe\<close>. The difficulty is an optional number; the
  program only ever stores what \<open>estimateDifficulty\<close> returns, an integer.
\<close>

record ProcessedRecipe = RawRecipe +
  difficulty :: "int option"
  tags :: RecipeTags

section \<open>LLMBasedTagger\<close>

record DataProcessingConfig =
  maxConcurrentRequests :: int
  requestDelayMs :: int
  batchSize :: int

text \<open>
  \<open>Math.round\<close> rounds to the nearest integer, a half upwards. The difficulty is built
  from the summands \<open>1\<close>, \<open>2\<close> and \<open>0.5\<close>, exact in binary floating point, so
  rationals compute what the doubles do.
\<close>

definition Math_round :: "rat \<Rightarrow> int" where
  "Math_round x = \<lfloor>x + 1 / 2\<rfloor>"

text \<open>
  The character class \<open>[\<dots>]\<close> of the step splitter, as the regular expression
  literal is written: the ideographic full stop, the full stop, a backslash, the letter
  \<open>n\<close> and the hyphen.
\<close>

definition step_delimiter :: "nat \<Rightarrow> bool" where
  "step_delimiter c = (c \<in> {0x3002, 0x2E, 0x5C, 0x6E, 0x2D})"

definition complexMethods :: "jstring list" where
  "complexMethods = [[0x70B8], [0x7096], [0x7116], [0x70E4], [0x84B8]]"

definition estimateDifficulty :: "'a RawRecipe_scheme \<Rightarrow> int" where
  "estimateDifficulty recipe =
     (let stepsText = orEmpty (steps (rawContent recipe));
          ingredientsText = orEmpty (ingredientsAndTools (rawContent recipe));
          difficulty0 = (1 :: rat);
          stepCount = length (filter (\<lambda>s. length (trim s) > 10)
                                     (split_class step_delimiter stepsText));
          difficulty1 = (if stepCount > 10 then difficulty0 + 2
                         else if stepCount > 5 then difficulty0 + 1 else difficulty0);
          hasComplexMethod = list_ex (\<lambda>method. str_includes stepsText method) complexMethods;
          difficulty2 = (if hasComplexMethod then difficulty1 + 1 else difficulty1);
          ingredientLines = filter (\<lambda>line. length (trim line) > 0)
                                   (split_str [0x5C, 0x6E] ingredientsText);
          difficulty3 = (if length ingredientLines > 15 then difficulty2 + 1
                         else if length ingredientLines > 10 then difficulty2 + 1 / 2
                         else difficulty2)
      in min 5 (max 1 (Math_round difficulty3)))"

text \<open>
  \<open>generateFallbackTags\<close>. \<open>String.prototype.toLowerCase\<close> is a parameter
  (\<open>lower\<close>): the function is a built-in of the language, and nothing proved below
  depends on what it returns.
\<close>

definition kid_friendly :: jstring where
  "kid_friendly = ascii ''kid_friendly''"

definition pregnancy_safe :: jstring where
  "pregnancy_safe = ascii ''pregnancy_safe''"

definition four_seasons :: "jstring list" where
  "four_seasons = [[0x6625], [0x590F], [0x79CB], [0x51AC]]"

definition fallbackText :: "(jstring \<Rightarrow> jstring) \<Rightarrow> 'a RawRecipe_scheme \<Rightarrow> jstring" where
  "fallbackText lower recipe =
     (let dishName' = lower (dishName recipe);
          steps' = lower (orEmpty (steps (rawContent recipe)));
          ingredients = lower (orEmpty (ingredientsAndTools (rawContent recipe)))
      in dishName' @ [0x20] @ steps' @ [0x20] @ ingredients)"

text \<open>\<open>if (kws.some(k => allText.includes(k))) tags.push(tag)\<close>, as a list to append.\<close>

definition pushIf :: "jstring \<Rightarrow> jstring list \<Rightarrow> jstring \<Rightarrow> jstring list" where
  "pushIf allText kws tag = (if list_ex (\<lambda>k. str_includes allText k) kws then [tag] else [])"

definition inferTaste :: "jstring \<Rightarrow> jstring list" where
  "inferTaste allText =
     (let t = pushIf allText [[0x8FA3], [0x6912], [0x9EBB]] [0x8FA3]
            @ pushIf allText [[0x9178], [0x918B], [0x67E0, 0x6AAC]] [0x9178]
            @ pushIf allText [[0x751C], [0x7CD6], [0x871C]] [0x751C]
            @ pushIf allText [[0x54B8], [0x76D0], [0x9171, 0x6CB9]] [0x54B8]
            @ pushIf allText [[0x9C9C], [0x5473, 0x7CBE], [0x9E21, 0x7CBE]] [0x9C9C]
      in if length t = 0 then t @ [[0x9999]] else t)"

definition inferCookingStyle :: "jstring \<Rightarrow> jstring \<Rightarrow> jstring list" where
  "inferCookingStyle allText cat =
     (let s = pushIf allText [[0x7092]] [0x7092]
            @ pushIf allText [[0x84B8]] [0x84B8]
            @ pushIf allText [[0x7096], [0x7168]] [0x7096]
            @ pushIf allText [[0x70B8]] [0x70B8]
            @ pushIf allText [[0x51C9, 0x62CC], [0x62CC]] [0x51C9, 0x62CC]
            @ pushIf allText [[0x70E4]] [0x70E4]
            @ pushIf allText [[0x70E7], [0x7EA2, 0x70E7]] [0x70E7]
            @ pushIf allText [[0x7116]] [0x7116]
            @ pushIf allText [[0x716E], [0x6C34, 0x716E]] [0x716E]
            @ pushIf allText [[0x714E]] [0x714E]
            @ pushIf allText [[0x70D9]] [0x70D9]
            @ pushIf allText [[0x6C46]] [0x6C46]
      in if length s = 0 then
           (if cat = ascii ''soup'' then s @ [[0x716E]]
            else if cat = ascii ''vegetable_dish'' then s @ [[0x7092]]
            else if cat = ascii ''meat_dish'' then s @ [[0x70E7]]
            else s @ [[0x7092]])
         else s)"

definition dangerousIngredients :: "jstring list" where
  "dangerousIngredients = [[0x9152], [0x5496, 0x5561], [0x751F], [0x534A, 0x751F], [0x8840]]"

definition spicyKeywords :: "jstring list" where
  "spicyKeywords = [[0x8FA3], [0x6912], [0x9EBB]]"

definition hasDangerousIngredients :: "jstring \<Rightarrow> bool" where
  "hasDangerousIngredients allText =
     list_ex (\<lambda>ingredient. str_includes allText ingredient) dangerousIngredients"

definition isSpicy :: "jstring \<Rightarrow> bool" where
  "isSpicy allText = list_ex (\<lambda>keyword. str_includes allText keyword) spicyKeywords"

definition inferSuitability :: "jstring \<Rightarrow> jstring list" where
  "inferSuitability allText =
     (if \<not> hasDangerousIngredients allText \<and> \<not> isSpicy allText then [kid_friendly] else [])
     @ (if \<not> hasDangerousIngredients allText then [pregnancy_safe] else [])"

definition generateFallbackTags :: "(jstring \<Rightarrow> jstring) \<Rightarrow> 'a RawRecipe_scheme \<Rightarrow> RecipeTags" where
  "generateFallbackTags lower recipe =
     (let allText = fallbackText lower recipe
      in \<lparr>taste = inferTaste allText,
          cookingStyle = inferCookingStyle allText (category recipe),
          season = four_seasons,
          suitability = inferSuitability allText\<rparr>)"

text \<open>
  \<open>tagRecipe\<close>. The tagging collaborator (\<open>generateObject\<close> with the tag schema) is
  represented by its answer to this call: \<open>Some\<close> of a schema-conformant tag object, or
  \<open>None\<close> when the call throws (time-out, malformed answer, any exception). The
  function returns \<open>ProcessedRecipe | null\<close> and never returns \<open>null\<close>.
\<close>

definition withTags :: "RawRecipe \<Rightarrow> RecipeTags \<Rightarrow> int \<Rightarrow> ProcessedRecipe" where
  "withTags r t d =
     \<lparr>dishName = dishName r, sourceFile = sourceFile r, contentHash = contentHash r,
      category = category r, rawContent = rawContent r, difficulty = Some d, tags = t\<rparr>"

definition tagRecipe ::
  "(jstring \<Rightarrow> jstring) \<Rightarrow> RecipeTags option \<Rightarrow> RawRecipe \<Rightarrow> ProcessedRecipe option" where
  "tagRecipe lower answer rawRecipe =
     (case answer of
        Some object \<Rightarrow> Some (withTags rawRecipe object (estimateDifficulty rawRecipe))
      | None \<Rightarrow> Some (withTags rawRecipe (generateFallbackTags lower rawRecipe)
                                (estimateDifficulty rawRecipe)))"

text \<open>
  \<open>tagRecipesIncremental\<close>. The state of the loop is the output array and the call
  counter of the source, together with a trace of what the loop did to the outside:
  the records sent to the collaborator and the delays awaited. The collaborator may
  answer differently each time, so it is a function of the number of earlier calls and
  the record. \<open>existingData\<close> is a plain object keyed by identifier.
\<close>

record tagger_state =
  processedRecipes :: "ProcessedRecipe list"
  apiCallCount :: nat
  llm_calls :: "RawRecipe list"
  delays :: "int list"

definition unchanged :: "(jstring \<rightharpoonup> ProcessedRecipe) \<Rightarrow> RawRecipe \<Rightarrow> bool" where
  "unchanged existingData rawRecipe =
     (case existingData (dishName rawRecipe) of
        None \<Rightarrow> False
      | Some existing \<Rightarrow> contentHash existing = contentHash rawRecipe)"

text \<open>
  \<open>apiCallCount % batchSize === 0\<close>: the remainder of a positive count has the
  magnitude of the divisor only, and is \<open>NaN\<close> for a batch size of zero.
\<close>

definition batchFull :: "nat \<Rightarrow> int \<Rightarrow> bool" where
  "batchFull n bsize = (bsize \<noteq> 0 \<and> int n mod \<bar>bsize\<bar> = 0)"

definition tagStep ::
  "DataProcessingConfig \<Rightarrow> (jstring \<Rightarrow> jstring) \<Rightarrow> (nat \<Rightarrow> RawRecipe \<Rightarrow> RecipeTags option) \<Rightarrow>
   (jstring \<rightharpoonup> ProcessedRecipe) \<Rightarrow> RawRecipe \<Rightarrow> tagger_state \<Rightarrow> tagger_state" where
  "tagStep cfg lower llm existingData rawRecipe st =
     (if unchanged existingData rawRecipe then
        st\<lparr>processedRecipes := processedRecipes st @ [the (existingData (dishName rawRecipe))]\<rparr>
      else
        (let answer = llm (length (llm_calls st)) rawRecipe;
             st1 = st\<lparr>llm_calls := llm_calls st @ [rawRecipe]\<rparr>
         in case tagRecipe lower answer rawRecipe of
              Some tagged \<Rightarrow>
                (let st2 = st1\<lparr>processedRecipes := processedRecipes st1 @ [tagged],
                               apiCallCount := apiCallCount st1 + 1\<rparr>
                 in if batchFull (apiCallCount st2) (batchSize cfg)
                    then st2\<lparr>delays := delays st2 @ [requestDelayMs cfg]\<rparr>
                    else st2)
            | None \<Rightarrow> st1))"

fun tagLoop ::
  "DataProcessingConfig \<Rightarrow> (jstring \<Rightarrow> jstring) \<Rightarrow> (nat \<Rightarrow> RawRecipe \<Rightarrow> RecipeTags option) \<Rightarrow>
   (jstring \<rightharpoonup> ProcessedRecipe) \<Rightarrow> RawRecipe list \<Rightarrow> tagger_state \<Rightarrow> tagger_state" where
  "tagLoop cfg lower llm existingData [] st = st"
| "tagLoop cfg lower llm existingData (rawRecipe # rest) st =
     tagLoop cfg lower llm existingData rest (tagStep cfg lower llm existingData rawRecipe st)"

definition tagRecipesIncremental ::
  "DataProcessingConfig \<Rightarrow> (jstring \<Rightarrow> jstring) \<Rightarrow> (nat \<Rightarrow> RawRecipe \<Rightarrow> RecipeTags option) \<Rightarrow>
   RawRecipe list \<Rightarrow> (jstring \<rightharpoonup> ProcessedRecipe) \<Rightarrow> tagger_state" where
  "tagRecipesIncremental cfg lower llm rawRecipes existingData =
     tagLoop cfg lower llm existingData rawRecipes
       \<lparr>processedRecipes = [], apiCallCount = 0, llm_calls = [], delays = []\<rparr>"

section \<open>Numbers\<close>

text \<open>
  A JavaScript number is an IEEE 754 double: a finite value, one of the two
  infinities, or \<open>NaN\<close>. A finite value is represented by the rational it denotes
  (\<open>-0\<close> is identified with \<open>0\<close>: no operation used here tells them apart). Every
  arithmetic operation computes the exact result and rounds it to the nearest
  double, ties to the even significand: \<open>roundToDouble\<close>. A double has a significand
  of 53 bits, so the spacing of the doubles around a rational \<open>x\<close> with
  \<open>2^e \<le> |x| < 2^(e+1)\<close> is \<open>2^(e-52)\<close>, and never less than \<open>2^-1074\<close> (the
  subnormal numbers); a result of magnitude \<open>2^1024\<close> or more is an infinity.
  The doubles are the numbers that \<open>roundToDouble\<close> leaves as they are; what is
  proved below of every \<open>number\<close> holds of every double.
\<close>

datatype number = Finite rat | PosInfinity | NegInfinity | NaN

definition binaryExponent :: "rat \<Rightarrow> int" where
  "binaryExponent x =
     (let d = bitlen (fst (quotient_of \<bar>x\<bar>)) - bitlen (snd (quotient_of \<bar>x\<bar>))
      in if 2 powi d \<le> \<bar>x\<bar> then d else d - 1)"

definition roundHalfEven :: "rat \<Rightarrow> int" where
  "roundHalfEven y =
     (let f = \<lfloor>y\<rfloor>; r = y - of_int f
      in if r < 1 / 2 then f else if 1 / 2 < r then f + 1 else if even f then f else f + 1)"

definition roundToDouble :: "rat \<Rightarrow> number" where
  "roundToDouble x =
     (if x = 0 then Finite 0
      else (let q = 2 powi (max (binaryExponent x - 52) (- 1074));
                y = of_int (roundHalfEven (x / q)) * q
            in if 2 powi 1024 \<le> \<bar>y\<bar> then (if 0 < x then PosInfinity else NegInfinity)
               else Finite y))"

text \<open>\<open>x + y\<close>, \<open>-x\<close>, \<open>x - y\<close> and \<open>x / 2\<close>.\<close>

fun num_add :: "number \<Rightarrow> number \<Rightarrow> number" where
  "num_add (Finite a) (Finite b) = roundToDouble (a + b)"
| "num_add NaN y = NaN"
| "num_add x NaN = NaN"
| "num_add PosInfinity NegInfinity = NaN"
| "num_add NegInfinity PosInfinity = NaN"
| "num_add PosInfinity y = PosInfinity"
| "num_add x PosInfinity = PosInfinity"
| "num_add NegInfinity y = NegInfinity"
| "num_add x NegInfinity = NegInfinity"

fun num_neg :: "number \<Rightarrow> number" where
  "num_neg (Finite a) = Finite (- a)"
| "num_neg PosInfinity = NegInfinity"
| "num_neg NegInfinity = PosInfinity"
| "num_neg NaN = NaN"

definition num_sub :: "number \<Rightarrow> number \<Rightarrow> number" where
  "num_sub x y = num_add x (num_neg y)"

fun halve :: "number \<Rightarrow> number" where
  "halve (Finite a) = roundToDouble (a / 2)"
| "halve x = x"

text \<open>\<open>Math.floor\<close> and \<open>Math.ceil\<close>.\<close>

fun Math_floor :: "number \<Rightarrow> number" where
  "Math_floor (Finite a) = Finite (of_int \<lfloor>a\<rfloor>)"
| "Math_floor x = x"

fun Math_ceil :: "number \<Rightarrow> number" where
  "Math_ceil (Finite a) = Finite (of_int \<lceil>a\<rceil>)"
| "Math_ceil x = x"

text \<open>
  \<open>x < y\<close> and \<open>x <= y\<close> (\<open>x > y\<close> is \<open>y < x\<close>, \<open>x >= y\<close> is \<open>y <= x\<close>); a comparison
  with \<open>NaN\<close> is false.
\<close>

fun num_less :: "number \<Rightarrow> number \<Rightarrow> bool" where
  "num_less (Finite a) (Finite b) = (a < b)"
| "num_less NaN y = False"
| "num_less x NaN = False"
| "num_less x NegInfinity = False"
| "num_less PosInfinity y = False"
| "num_less NegInfinity y = True"
| "num_less x PosInfinity = True"

definition num_le :: "number \<Rightarrow> number \<Rightarrow> bool" where
  "num_le x y = (x \<noteq> NaN \<and> y \<noteq> NaN \<and> (num_less x y \<or> x = y))"

text \<open>A number as a condition: \<open>0\<close> and \<open>NaN\<close> are false.\<close>

fun isTruthy :: "number \<Rightarrow> bool" where
  "isTruthy (Finite a) = (a \<noteq> 0)"
| "isTruthy NaN = False"
| "isTruthy x = True"

text \<open>
  \<open>xs.slice(0, end)\<close>. The end is converted to an integer, truncating towards zero
  (\<open>NaN\<close> becomes \<open>0\<close>, the infinities stay); a negative end counts from the end of
  the array; the result is clamped to the array.
\<close>

definition truncateNumber :: "rat \<Rightarrow> int" where
  "truncateNumber a = (if 0 \<le> a then \<lfloor>a\<rfloor> else \<lceil>a\<rceil>)"

definition slice0 :: "'a list \<Rightarrow> number \<Rightarrow> 'a list" where
  "slice0 xs end' =
     (case end' of
        NaN \<Rightarrow> []
      | NegInfinity \<Rightarrow> []
      | PosInfinity \<Rightarrow> xs
      | Finite a \<Rightarrow>
          if truncateNumber a < 0 then take (nat (int (length xs) + truncateNumber a)) xs
          else take (nat (truncateNumber a)) xs)"

section \<open>User preferences\<close>

text \<open>
  Every field of \<open>UserPreferences\<close> is optional. An object can lack the key, hold the
  key with the value \<open>undefined\<close>, or hold a value; reading the property gives
  \<open>undefined\<close> in the first two cases, but object spread copies a key that is present
  whatever its value. The two numeric fields hold any number (the schema of the
  extracted preferences is \<open>z.number()\<close>).
\<close>

datatype 'a field = Absent | Undefined | Value 'a

definition get :: "'a field \<Rightarrow> 'a option" where
  "get f = (case f of Absent \<Rightarrow> None | Undefined \<Rightarrow> None | Value v \<Rightarrow> Some v)"

record UserPreferences =
  peopleCount :: "number field"
  tastePreferences :: "jstring list field"
  ingredientExclusions :: "jstring list field"
  specialGroup :: "jstring list field"
  maxCookingTimeMinutes :: "number field"

text \<open>The object \<open>{}\<close>: preferences of which no key is present.\<close>

definition emptyPreferences :: UserPreferences where
  "emptyPreferences = \<lparr>peopleCount = Absent, tastePreferences = Absent,
                        ingredientExclusions = Absent, specialGroup = Absent,
                        maxCookingTimeMinutes = Absent\<rparr>"

text \<open>
  \<open>xs?.length\<close> as a condition, \<open>xs?.includes(x)\<close>, and \<open>n || d\<close>: on the difficulty
  of an index entry (an integer from 1 to 5 when present) and on a number.
\<close>

definition hasLength :: "'a list field \<Rightarrow> bool" where
  "hasLength f = (case get f of None \<Rightarrow> False | Some xs \<Rightarrow> length xs \<noteq> 0)"

definition opt_includes :: "jstring list field \<Rightarrow> jstring \<Rightarrow> bool" where
  "opt_includes f x = (case get f of None \<Rightarrow> False | Some xs \<Rightarrow> arr_includes xs x)"

definition orNumber :: "int option \<Rightarrow> int \<Rightarrow> int" where
  "orNumber n d = (case n of None \<Rightarrow> d | Some v \<Rightarrow> if v = 0 then d else v)"

definition numberOr :: "number option \<Rightarrow> number \<Rightarrow> number" where
  "numberOr n d = (case n of None \<Rightarrow> d | Some v \<Rightarrow> if isTruthy v then v else d)"

section \<open>KnowledgeBase\<close>

text \<open>
  \<open>RecipeIndex\<close> has the fields \<open>dishName\<close>, \<open>category\<close>, \<open>difficulty\<close> and
  \<open>tags\<close>; they carry the prefix \<open>idx_\<close> here, the names being taken by the recipe
  records. \<open>recipesData\<close> is a plain object keyed by identifier; identifiers are
  taken to differ from the property names every object inherits, so that a lookup is
  a map lookup.
\<close>

record RecipeIndex =
  idx_dishName :: jstring
  idx_category :: jstring
  idx_difficulty :: "int option"
  idx_tags :: RecipeTags

record KnowledgeBase =
  recipesData :: "jstring \<rightharpoonup> ProcessedRecipe"
  recipesIndex :: "RecipeIndex list"
  isLoaded :: bool

datatype error = LoadError | TypeError

text \<open>
  The two artifacts on disk, as \<open>loadData\<close> sees them: a file can be missing (the
  read fails), hold text that \<open>JSON.parse\<close> rejects, or hold a value.
\<close>

datatype 'a artifact = Missing | Unparseable | Content 'a

record data_files =
  index_file :: "RecipeIndex list artifact"
  data_file :: "(jstring \<rightharpoonup> ProcessedRecipe) artifact"

definition loadData :: "data_files \<Rightarrow> KnowledgeBase \<Rightarrow> KnowledgeBase \<times> (error + unit)" where
  "loadData files kb =
     (if index_file files = Missing \<or> data_file files = Missing then (kb, Inl LoadError)
      else (case index_file files of
              Content idx \<Rightarrow>
                (let kb1 = kb\<lparr>recipesIndex := idx\<rparr>
                 in case data_file files of
                      Content d \<Rightarrow> (kb1\<lparr>recipesData := d\<rparr>, Inr ())
                    | _ \<Rightarrow> (kb1, Inl LoadError))
            | _ \<Rightarrow> (kb, Inl LoadError)))"

definition initialize :: "data_files \<Rightarrow> KnowledgeBase \<Rightarrow> KnowledgeBase \<times> (error + unit)" where
  "initialize files kb =
     (if isLoaded kb then (kb, Inr ())
      else (case loadData files kb of
              (kb1, Inr u) \<Rightarrow> (kb1\<lparr>isLoaded := True\<rparr>, Inr ())
            | (kb1, Inl e) \<Rightarrow> (kb1, Inl LoadError)))"

definition ensureLoaded :: "data_files \<Rightarrow> KnowledgeBase \<Rightarrow> KnowledgeBase \<times> (error + unit)" where
  "ensureLoaded files kb = (if \<not> isLoaded kb then initialize files kb else (kb, Inr ()))"

definition getDishByName ::
  "data_files \<Rightarrow> KnowledgeBase \<Rightarrow> jstring \<Rightarrow> KnowledgeBase \<times> (error + ProcessedRecipe option)" where
  "getDishByName files kb name =
     (case ensureLoaded files kb of
        (kb1, Inl e) \<Rightarrow> (kb1, Inl e)
      | (kb1, Inr u) \<Rightarrow> (kb1, Inr (recipesData kb1 name)))"

text \<open>
  The query functions return arrays whose elements are what the data table holds for
  an identifier: \<open>None\<close> is the \<open>undefined\<close> of a missing key.
\<close>

definition getRecipesByCategory ::
  "data_files \<Rightarrow> KnowledgeBase \<Rightarrow> jstring \<Rightarrow> KnowledgeBase \<times> (error + ProcessedRecipe option list)" where
  "getRecipesByCategory files kb cat =
     (case ensureLoaded files kb of
        (kb1, Inl e) \<Rightarrow> (kb1, Inl e)
      | (kb1, Inr u) \<Rightarrow>
          (kb1, Inr (filter (\<lambda>recipe. recipe \<noteq> None)
                       (map (\<lambda>recipe. recipesData kb1 (idx_dishName recipe))
                          (filter (\<lambda>recipe. idx_category recipe = cat) (recipesIndex kb1))))))"

definition getRecipesByDifficulty ::
  "data_files \<Rightarrow> KnowledgeBase \<Rightarrow> int \<Rightarrow> KnowledgeBase \<times> (error + ProcessedRecipe option list)" where
  "getRecipesByDifficulty files kb maxDifficulty =
     (case ensureLoaded files kb of
        (kb1, Inl e) \<Rightarrow> (kb1, Inl e)
      | (kb1, Inr u) \<Rightarrow>
          (kb1, Inr (map (\<lambda>recipe. recipesData kb1 (idx_dishName recipe))
                       (filter (\<lambda>recipe. orNumber (idx_difficulty recipe) 1 \<le> maxDifficulty)
                          (recipesIndex kb1)))))"

subsection \<open>searchRecipes\<close>

text \<open>
  The working set \<open>candidates\<close> starts as the index array itself, not a copy. The
  taste stage replaces it by a fresh array when the filter finds a match; the flag
  returned with the working set tells whether it still is the index array.
\<close>

definition matchesTaste :: "jstring list \<Rightarrow> RecipeIndex \<Rightarrow> bool" where
  "matchesTaste tastes recipe =
     list_ex (\<lambda>taste'. arr_includes (taste (idx_tags recipe)) taste') tastes"

definition tasteStage :: "UserPreferences \<Rightarrow> RecipeIndex list \<Rightarrow> RecipeIndex list \<times> bool" where
  "tasteStage preferences candidates =
     (if hasLength (tastePreferences preferences) then
        (let filteredByTaste = filter (matchesTaste (the (get (tastePreferences preferences))))
                                 candidates
         in if length filteredByTaste > 0 then (filteredByTaste, False) else (candidates, True))
      else (candidates, True))"

text \<open>
  The comparator of the sort is \<open>scoreB - scoreA\<close>, and \<open>Array.prototype.sort\<close> is
  stable and sorts the array it is called on in place: a stable sort by descending
  score, which also rewrites the index array when the working set is that array.
\<close>

definition specialGroupScore :: "UserPreferences \<Rightarrow> RecipeIndex \<Rightarrow> int" where
  "specialGroupScore preferences a =
     (if opt_includes (specialGroup preferences) (ascii ''kid'')
      then (if arr_includes (suitability (idx_tags a)) kid_friendly then 2 else 0) else 0)
     + (if opt_includes (specialGroup preferences) (ascii ''pregnant'')
        then (if arr_includes (suitability (idx_tags a)) pregnancy_safe then 2 else 0) else 0)"

definition sortStage ::
  "UserPreferences \<Rightarrow> RecipeIndex list \<times> bool \<Rightarrow> KnowledgeBase \<Rightarrow> RecipeIndex list \<times> KnowledgeBase" where
  "sortStage preferences working kb =
     (if hasLength (specialGroup preferences) then
        (let sorted = sort_key (\<lambda>a. - specialGroupScore preferences a) (fst working)
         in (sorted, if snd working then kb\<lparr>recipesIndex := sorted\<rparr> else kb))
      else (fst working, kb))"

text \<open>
  The exclusion filter reads \<open>fullRecipe.rawContent\<close> of the data table's entry for
  each candidate in turn; on a missing entry that read throws a \<open>TypeError\<close>.
\<close>

definition isExcluded :: "(jstring \<Rightarrow> jstring) \<Rightarrow> jstring list \<Rightarrow> ProcessedRecipe \<Rightarrow> bool" where
  "isExcluded lower exclusions fullRecipe =
     (let ingredientsText = orEmpty (map_option lower (ingredientsAndTools (rawContent fullRecipe)))
      in list_ex (\<lambda>exclusion. str_includes ingredientsText (lower exclusion)) exclusions)"

fun filterExclusions ::
  "(jstring \<Rightarrow> jstring) \<Rightarrow> (jstring \<rightharpoonup> ProcessedRecipe) \<Rightarrow> jstring list \<Rightarrow> RecipeIndex list \<Rightarrow>
   error + RecipeIndex list" where
  "filterExclusions lower data exclusions [] = Inr []"
| "filterExclusions lower data exclusions (recipe # rest) =
     (case data (idx_dishName recipe) of
        None \<Rightarrow> Inl TypeError
      | Some fullRecipe \<Rightarrow>
          (case filterExclusions lower data exclusions rest of
             Inl e \<Rightarrow> Inl e
           | Inr kept \<Rightarrow>
               Inr (if \<not> isExcluded lower exclusions fullRecipe then recipe # kept else kept)))"

definition exclusionStage ::
  "(jstring \<Rightarrow> jstring) \<Rightarrow> (jstring \<rightharpoonup> ProcessedRecipe) \<Rightarrow> UserPreferences \<Rightarrow> RecipeIndex list \<Rightarrow>
   error + RecipeIndex list" where
  "exclusionStage lower data preferences candidates =
     (if hasLength (ingredientExclusions preferences)
      then filterExclusions lower data (the (get (ingredientExclusions preferences))) candidates
      else Inr candidates)"

definition searchRecipes ::
  "data_files \<Rightarrow> (jstring \<Rightarrow> jstring) \<Rightarrow> KnowledgeBase \<Rightarrow> UserPreferences \<Rightarrow>
   KnowledgeBase \<times> (error + ProcessedRecipe option list)" where
  "searchRecipes files lower kb preferences =
     (case ensureLoaded files kb of
        (kb1, Inl e) \<Rightarrow> (kb1, Inl e)
      | (kb1, Inr u) \<Rightarrow>
          (let working = tasteStage preferences (recipesIndex kb1);
               (candidates, kb2) = sortStage preferences working kb1
           in case exclusionStage lower (recipesData kb2) preferences candidates of
                Inl e \<Rightarrow> (kb2, Inl e)
              | Inr remaining \<Rightarrow>
                  (kb2, Inr (map (\<lambda>recipe. recipesData kb2 (idx_dishName recipe)) remaining))))"

subsection \<open>getRecommendedCandidates\<close>

record CandidateDishes =
  mainDishes :: "ProcessedRecipe list"
  vegetableDishes :: "ProcessedRecipe list"
  soups :: "ProcessedRecipe list"

text \<open>
  The three category filters read \<open>recipe.category\<close> of every search result; an
  \<open>undefined\<close> among the results makes the first filter throw.
\<close>

fun allDefined :: "'a option list \<Rightarrow> error + 'a list" where
  "allDefined [] = Inr []"
| "allDefined (None # rest) = Inl TypeError"
| "allDefined (Some x # rest) = (case allDefined rest of Inl e \<Rightarrow> Inl e | Inr xs \<Rightarrow> Inr (x # xs))"

definition getRecommendedCandidates ::
  "data_files \<Rightarrow> (jstring \<Rightarrow> jstring) \<Rightarrow> KnowledgeBase \<Rightarrow> UserPreferences \<Rightarrow>
   KnowledgeBase \<times> (error + CandidateDishes)" where
  "getRecommendedCandidates files lower kb preferences =
     (case ensureLoaded files kb of
        (kb1, Inl e) \<Rightarrow> (kb1, Inl e)
      | (kb1, Inr u) \<Rightarrow>
          (case searchRecipes files lower kb1 preferences of
             (kb2, Inl e) \<Rightarrow> (kb2, Inl e)
           | (kb2, Inr found) \<Rightarrow>
               (case allDefined found of
                  Inl e \<Rightarrow> (kb2, Inl e)
                | Inr allCandidates \<Rightarrow>
                    (kb2, Inr \<lparr>mainDishes =
                                 filter (\<lambda>recipe. arr_includes [ascii ''meat_dish'', ascii ''aquatic'']
                                                     (category recipe)) allCandidates,
                               vegetableDishes =
                                 filter (\<lambda>recipe. category recipe = ascii ''vegetable_dish'')
                                   allCandidates,
                               soups =
                                 filter (\<lambda>recipe. category recipe = ascii ''soup'')
                                   allCandidates\<rparr>))))"

section \<open>MenuRecommender\<close>

text \<open>
  \<open>MenuRecommendation\<close> has the fields \<open>dishName\<close> and \<open>recommendationReason\<close>; the
  first is \<open>item_dishName\<close> here. The record returned by
  \<open>calculateMenuComposition\<close> has the fields \<open>mainDishes\<close>, \<open>vegetableDishes\<close>,
  \<open>soups\<close> and \<open>totalDishes\<close>; the first three carry the prefix \<open>n_\<close> here.
\<close>

record MenuRecommendation =
  item_dishName :: jstring
  recommendationReason :: jstring

record MenuComposition =
  n_mainDishes :: number
  n_vegetableDishes :: number
  n_soups :: number
  totalDishes :: number

definition calculateMenuComposition :: "number \<Rightarrow> MenuComposition" where
  "calculateMenuComposition peopleCount' =
     (let totalDishes' = num_add peopleCount' (Finite 1);
          vegetableDishes' = Math_floor (halve totalDishes');
          mainDishes' = Math_ceil (halve totalDishes');
          soups' = (if num_less (Finite 4) peopleCount' then Finite 1 else Finite 0)
      in \<lparr>n_mainDishes = mainDishes', n_vegetableDishes = vegetableDishes', n_soups = soups',
          totalDishes = num_add (num_add mainDishes' vegetableDishes') soups'\<rparr>)"

definition mainReason :: "ProcessedRecipe \<Rightarrow> jstring" where
  "mainReason dish =
     [0x7ECF, 0x5178]
     @ (if category dish = ascii ''meat_dish'' then [0x8364, 0x83DC] else [0x6D77, 0x9C9C])
     @ [0xFF0C, 0x8425, 0x517B, 0x4E30, 0x5BCC, 0xFF0C, 0x9002, 0x5408, 0x5BB6, 0x5EAD, 0x805A,
        0x9910, 0x3002]"

definition vegetableReason :: jstring where
  "vegetableReason =
     [0x6E05, 0x723D, 0x7D20, 0x83DC, 0xFF0C, 0x5E73, 0x8861, 0x8364, 0x8165, 0xFF0C, 0x63D0,
      0x4F9B, 0x4E30, 0x5BCC, 0x7EF4, 0x751F, 0x7D20, 0x548C, 0x7EA4, 0x7EF4, 0x3002]"

definition soupReason :: jstring where
  "soupReason =
     [0x6696, 0x80C3, 0x6C64, 0x54C1, 0xFF0C, 0x6709, 0x52A9, 0x6D88, 0x5316, 0xFF0C, 0x4E30,
      0x5BCC, 0x7528, 0x9910, 0x5C42, 0x6B21, 0x3002]"

definition generateFallbackMenu :: "CandidateDishes \<Rightarrow> number \<Rightarrow> MenuRecommendation list" where
  "generateFallbackMenu candidateDishes peopleCount' =
     (let composition = calculateMenuComposition peopleCount'
      in map (\<lambda>dish. \<lparr>item_dishName = dishName dish, recommendationReason = mainReason dish\<rparr>)
           (slice0 (mainDishes candidateDishes) (n_mainDishes composition))
         @ map (\<lambda>dish. \<lparr>item_dishName = dishName dish, recommendationReason = vegetableReason\<rparr>)
             (slice0 (vegetableDishes candidateDishes) (n_vegetableDishes composition))
         @ (if num_less (Finite 0) (n_soups composition)
            then map (\<lambda>dish. \<lparr>item_dishName = dishName dish, recommendationReason = soupReason\<rparr>)
                   (slice0 (soups candidateDishes) (n_soups composition))
            else []))"

text \<open>
  \<open>recommendMenu\<close>. The recommending collaborator is represented by its answer to the
  call: \<open>Some\<close> of the menu of a schema-conformant object, or \<open>None\<close> when the call
  throws (time-out, exception, malformed schema). The function returns the menu; the
  warnings it logs are returned with it.
\<close>

datatype warning = InvalidDishName jstring | TooManyInvalid nat number

definition availableDishNames :: "CandidateDishes \<Rightarrow> jstring set" where
  "availableDishNames candidateDishes =
     set (map dishName (mainDishes candidateDishes @ vegetableDishes candidateDishes
                        @ soups candidateDishes))"

definition recommendMenu ::
  "MenuRecommendation list option \<Rightarrow> UserPreferences \<Rightarrow> CandidateDishes \<Rightarrow>
   MenuRecommendation list \<times> warning list" where
  "recommendMenu answer preferences candidateDishes =
     (let menuComposition =
            calculateMenuComposition (numberOr (get (peopleCount preferences)) (Finite 2))
      in case answer of
           None \<Rightarrow>
             (generateFallbackMenu candidateDishes
                (numberOr (get (peopleCount preferences)) (Finite 2)), [])
         | Some recommendedMenu \<Rightarrow>
             (let validatedMenu = filter (\<lambda>item. item_dishName item
                                                  \<in> availableDishNames candidateDishes)
                                    recommendedMenu;
                  warned = map (\<lambda>item. InvalidDishName (item_dishName item))
                             (filter (\<lambda>item. item_dishName item
                                               \<notin> availableDishNames candidateDishes)
                                recommendedMenu)
              in if num_less (Finite (of_nat (length validatedMenu)))
                      (num_sub (totalDishes menuComposition) (Finite 1))
                 then (generateFallbackMenu candidateDishes
                         (numberOr (get (peopleCount preferences)) (Finite 2)),
                       warned @ [TooManyInvalid (length validatedMenu)
                                   (totalDishes menuComposition)])
                 else (validatedMenu, warned)))"

section \<open>IntentExtractor\<close>

text \<open>
  The table \<open>tasteMapping\<close> from the user's words to the taste tags of the data, a
  plain object looked up by the word (words are taken to differ from the property
  names every object inherits).
\<close>

definition tasteMapping :: "jstring \<rightharpoonup> jstring list" where
  "tasteMapping =
     [[0x6E05, 0x6DE1] \<mapsto> [[0x9C9C]],
      [0x6E05, 0x723D] \<mapsto> [[0x9C9C]],
      [0x4E0D, 0x6CB9, 0x817B] \<mapsto> [[0x9C9C]],
      [0x6DE1] \<mapsto> [[0x9C9C]],
      [0x9C9C, 0x7F8E] \<mapsto> [[0x9C9C]],
      [0x9999] \<mapsto> [[0x9999]],
      [0x9999, 0x5473] \<mapsto> [[0x9999]],
      [0x8FA3] \<mapsto> [[0x8FA3]],
      [0x5FAE, 0x8FA3] \<mapsto> [[0x5FAE, 0x8FA3]],
      [0x751C] \<mapsto> [[0x751C]],
      [0x9178] \<mapsto> [[0x9178]],
      [0x54B8] \<mapsto> [[0x54B8]],
      [0x9EBB] \<mapsto> [[0x9EBB]],
      [0x82E6] \<mapsto> [[0x82E6]]]"

text \<open>\<open>Array.from\<close> of a \<open>Set\<close> filled in order: the first occurrence of each element.\<close>

definition inInsertionOrder :: "jstring list \<Rightarrow> jstring list" where
  "inInsertionOrder xs = rev (remdups (rev xs))"

definition mapTastePreferences :: "UserPreferences \<Rightarrow> UserPreferences" where
  "mapTastePreferences preferences =
     (case get (tastePreferences preferences) of
        None \<Rightarrow> preferences
      | Some tastes \<Rightarrow>
          preferences\<lparr>tastePreferences :=
            Value (inInsertionOrder
                     (concat (map (\<lambda>taste'. case tasteMapping taste' of
                                               Some mapped \<Rightarrow> mapped
                                             | None \<Rightarrow> [taste']) tastes)))\<rparr>)"

text \<open>
  \<open>extractIntent\<close>. The intent-extraction collaborator is represented by its answer:
  \<open>Some\<close> of a schema-conformant preferences object, or \<open>None\<close> when the call throws.
  The object returned on failure has all five keys, each with the value
  \<open>undefined\<close>.
\<close>

definition extractIntent :: "UserPreferences option \<Rightarrow> UserPreferences" where
  "extractIntent answer =
     (case answer of
        Some object \<Rightarrow> mapTastePreferences object
      | None \<Rightarrow> \<lparr>peopleCount = Undefined, tastePreferences = Undefined,
                 ingredientExclusions = Undefined, specialGroup = Undefined,
                 maxCookingTimeMinutes = Undefined\<rparr>)"

datatype missing = MissingPeopleCount | MissingTasteOrSpecialNeed

datatype suggestion = AskPeopleCount | AskTaste | LargeGroupAdvice | KidAdvice | PregnantAdvice

record validation =
  isValid :: bool
  missingInfo :: "missing list"
  suggestions :: "suggestion list"

text \<open>An optional number as a condition: \<open>undefined\<close>, \<open>0\<close> and \<open>NaN\<close> are false.\<close>

definition truthy :: "number field \<Rightarrow> bool" where
  "truthy n = (case get n of None \<Rightarrow> False | Some v \<Rightarrow> isTruthy v)"

definition validatePreferences :: "UserPreferences \<Rightarrow> validation" where
  "validatePreferences preferences =
     (let noCount = \<not> truthy (peopleCount preferences);
          noTaste = \<not> hasLength (tastePreferences preferences)
                    \<and> \<not> hasLength (specialGroup preferences);
          missingInfo' = (if noCount then [MissingPeopleCount] else [])
                         @ (if noTaste then [MissingTasteOrSpecialNeed] else []);
          suggestions' = (if noCount then [AskPeopleCount] else [])
                         @ (if noTaste then [AskTaste] else [])
                         @ (if truthy (peopleCount preferences)
                               \<and> num_less (Finite 6) (the (get (peopleCount preferences)))
                            then [LargeGroupAdvice] else [])
                         @ (if opt_includes (specialGroup preferences) (ascii ''kid'')
                            then [KidAdvice] else [])
                         @ (if opt_includes (specialGroup preferences) (ascii ''pregnant'')
                            then [PregnantAdvice] else [])
      in \<lparr>isValid = (length missingInfo' = 0), missingInfo = missingInfo',
          suggestions = suggestions'\<rparr>)"

text \<open>
  \<open>interpretFollowUpRequest\<close> classifies by patterns over the lower-cased input. The
  modify branch calls \<open>extractIntent\<close> with an empty history; its answer is the
  second argument here.
\<close>

datatype action =
    modify_preferences UserPreferences
  | confirm_menu
  | replace_dish
  | ask_question
  | unknown

definition includesAny :: "jstring \<Rightarrow> jstring list \<Rightarrow> bool" where
  "includesAny s patterns = list_ex (\<lambda>pattern. str_includes s pattern) patterns"

definition interpretFollowUpRequest ::
  "(jstring \<Rightarrow> jstring) \<Rightarrow> UserPreferences option \<Rightarrow> jstring \<Rightarrow> action" where
  "interpretFollowUpRequest lower answer userInput =
     (let lowerInput = lower userInput
      in if str_includes lowerInput [0x786E, 0x8BA4] \<or> str_includes lowerInput [0x597D, 0x7684]
            \<or> str_includes lowerInput [0x5C31, 0x8FD9, 0x4E9B]
         then confirm_menu
         else if includesAny lowerInput
                   [[0x6362], [0x66FF, 0x6362], [0x4E0D, 0x8981], [0x6539, 0x6210]]
         then replace_dish
         else if includesAny lowerInput
                   [[0x4EBA, 0x6570], [0x53E3, 0x5473], [0x8FA3], [0x751C], [0x54B8],
                    [0x6E05, 0x6DE1], [0x4E0D, 0x5403], [0x5FCC, 0x53E3]]
         then modify_preferences (extractIntent answer)
         else if includesAny lowerInput
                   [[0x600E, 0x4E48, 0x505A], [0x600E, 0x4E48], [0x4E3A, 0x4EC0, 0x4E48],
                    [0x4EC0, 0x4E48, 0x65F6, 0x5019], [0x591A, 0x957F, 0x65F6, 0x95F4],
                    [0x600E, 0x6837]]
                 \<or> str_includes lowerInput [0x3F] \<or> str_includes lowerInput [0xFF1F]
         then ask_question
         else unknown)"

section \<open>WorkflowPlanner\<close>

text \<open>
  \<open>planWorkflow\<close> asks the planning collaborator, in detailed mode when the estimated
  content is short enough and in macro mode otherwise, and returns a fixed generic plan
  listing the dish names when the call throws. It never throws itself.
\<close>

datatype workflow = Planned jstring | GenericPlan "jstring list"

definition estimateContentLength :: "ProcessedRecipe list \<Rightarrow> nat" where
  "estimateContentLength confirmedMenu =
     sum_list (map (\<lambda>recipe. length (dishName recipe)
                       + length (orEmpty (ingredientsAndTools (rawContent recipe)))
                       + length (orEmpty (calculation (rawContent recipe)))
                       + length (orEmpty (steps (rawContent recipe)))) confirmedMenu)
     + 1000"

definition planWorkflow ::
  "(bool \<Rightarrow> ProcessedRecipe list \<Rightarrow> jstring option) \<Rightarrow> ProcessedRecipe list \<Rightarrow> workflow" where
  "planWorkflow llm confirmedMenu =
     (let useDetailedPlanning = estimateContentLength confirmedMenu < 8000
      in case llm useDetailedPlanning confirmedMenu of
           Some workflowText \<Rightarrow> Planned workflowText
         | None \<Rightarrow> GenericPlan (map dishName confirmedMenu))"

section \<open>ConversationEngine\<close>

datatype ConversationState =
    AWAITING_PREFERENCES
  | RECOMMENDING_MENU
  | GENERATING_SHOPPING_LIST
  | PLANNING_WORKFLOW
  | READY_FOR_QUESTIONS

text \<open>
  The texts the engine builds are represented by their template and the data put into
  it. The time stamp of a message is left out.
\<close>

datatype shopping_line =
    DishHeading nat jstring
  | CalculationHeading jstring
  | Section jstring
  | Blank

datatype reply =
    WelcomeMessage
  | ErrorMessage error
  | NeedMoreInformation "missing list" "suggestion list"
  | MenuProposal "MenuRecommendation list"
  | ReplacementOptions jstring "ProcessedRecipe list"
  | NoReplacement
  | NotUnderstood
  | ShoppingListAndWorkflow "shopping_line list" workflow
  | WorkflowOnly workflow
  | RecipeAnswer ProcessedRecipe
  | AskAboutMenu

datatype role = User | Assistant

datatype content = Typed jstring | Rendered reply

record Message =
  role :: role
  content :: content

record ConversationEngine =
  state :: ConversationState
  messages :: "Message list"
  userPreferences :: UserPreferences
  recommendedMenu :: "MenuRecommendation list"
  confirmedMenu :: "ProcessedRecipe list"
  knowledgeBase :: KnowledgeBase

text \<open>
  What a turn finds outside the engine: the built-in \<open>toLowerCase\<close>, the artifacts on
  disk, and the three collaborators, each a function of what it is sent.
\<close>

record collaborators =
  toLowerCase :: "jstring \<Rightarrow> jstring"
  dataFiles :: data_files
  intentExtraction :: "jstring \<Rightarrow> Message list \<Rightarrow> UserPreferences option"
  menuRecommendation :: "UserPreferences \<Rightarrow> CandidateDishes \<Rightarrow> MenuRecommendation list option"
  workflowPlanning :: "bool \<Rightarrow> ProcessedRecipe list \<Rightarrow> jstring option"

definition addMessage :: "role \<Rightarrow> content \<Rightarrow> ConversationEngine \<Rightarrow> ConversationEngine" where
  "addMessage r c eng = eng\<lparr>messages := messages eng @ [\<lparr>role = r, content = c\<rparr>]\<rparr>"

definition setState :: "ConversationState \<Rightarrow> ConversationEngine \<Rightarrow> ConversationEngine" where
  "setState newState eng = eng\<lparr>state := newState\<rparr>"

text \<open>
  \<open>updateUserPreferences\<close> is the object spread \<open>{...old, ...new}\<close>: every key that
  is present in the new object, whatever its value, replaces the old one.
\<close>

definition spread :: "'a field \<Rightarrow> 'a field \<Rightarrow> 'a field" where
  "spread old new = (case new of Absent \<Rightarrow> old | _ \<Rightarrow> new)"

definition updateUserPreferences :: "UserPreferences \<Rightarrow> ConversationEngine \<Rightarrow> ConversationEngine" where
  "updateUserPreferences preferences eng =
     eng\<lparr>userPreferences :=
           \<lparr>peopleCount = spread (peopleCount (userPreferences eng)) (peopleCount preferences),
            tastePreferences = spread (tastePreferences (userPreferences eng))
                                 (tastePreferences preferences),
            ingredientExclusions = spread (ingredientExclusions (userPreferences eng))
                                     (ingredientExclusions preferences),
            specialGroup = spread (specialGroup (userPreferences eng)) (specialGroup preferences),
            maxCookingTimeMinutes = spread (maxCookingTimeMinutes (userPreferences eng))
                                      (maxCookingTimeMinutes preferences)\<rparr>\<rparr>"

definition setRecommendedMenu :: "MenuRecommendation list \<Rightarrow> ConversationEngine \<Rightarrow> ConversationEngine" where
  "setRecommendedMenu menu eng = setState RECOMMENDING_MENU (eng\<lparr>recommendedMenu := menu\<rparr>)"

definition reset :: "ConversationEngine \<Rightarrow> ConversationEngine" where
  "reset eng =
     addMessage Assistant (Rendered WelcomeMessage)
       (eng\<lparr>state := AWAITING_PREFERENCES, userPreferences := emptyPreferences,
            recommendedMenu := [], confirmedMenu := [], messages := []\<rparr>)"

text \<open>
  A handler returns the engine as it leaves it and either the reply with the state it
  reports, or the error it throws. What it did to the engine before throwing stays
  done.
\<close>

type_synonym outcome = "ConversationEngine \<times> (error + reply \<times> ConversationState)"

definition handlePreferenceInput :: "collaborators \<Rightarrow> ConversationEngine \<Rightarrow> jstring \<Rightarrow> outcome" where
  "handlePreferenceInput env eng userInput =
     (let extractedPreferences = extractIntent (intentExtraction env userInput (messages eng));
          eng1 = updateUserPreferences extractedPreferences eng;
          validation' = validatePreferences (userPreferences eng1)
      in if \<not> isValid validation'
         then (eng1, Inr (NeedMoreInformation (missingInfo validation') (suggestions validation'),
                          AWAITING_PREFERENCES))
         else (case getRecommendedCandidates (dataFiles env) (toLowerCase env) (knowledgeBase eng1)
                      (userPreferences eng1) of
                 (kb, Inl e) \<Rightarrow> (eng1\<lparr>knowledgeBase := kb\<rparr>, Inl e)
               | (kb, Inr candidates) \<Rightarrow>
                   (let menuRecommendations =
                          fst (recommendMenu
                                 (menuRecommendation env (userPreferences eng1) candidates)
                                 (userPreferences eng1) candidates);
                        eng2 = setRecommendedMenu menuRecommendations (eng1\<lparr>knowledgeBase := kb\<rparr>)
                    in (eng2, Inr (MenuProposal menuRecommendations, RECOMMENDING_MENU)))))"

fun shoppingLines :: "nat \<Rightarrow> ProcessedRecipe list \<Rightarrow> shopping_line list" where
  "shoppingLines index [] = []"
| "shoppingLines index (recipe # rest) =
     (case ingredientsAndTools (rawContent recipe) of
        Some text' \<Rightarrow> if text' \<noteq> []
                      then [DishHeading (index + 1) (dishName recipe), Section text', Blank] else []
      | None \<Rightarrow> [])
     @ (case calculation (rawContent recipe) of
          Some text' \<Rightarrow> if text' \<noteq> []
                        then [CalculationHeading (dishName recipe), Section text', Blank] else []
        | None \<Rightarrow> [])
     @ shoppingLines (index + 1) rest"

definition generateShoppingList :: "ConversationEngine \<Rightarrow> shopping_line list" where
  "generateShoppingList eng = shoppingLines 0 (confirmedMenu eng)"

text \<open>
  \<open>handleShoppingListGeneration\<close>: \<open>planWorkflow\<close> does not throw and the cooking guide
  is written under a handler of its own, so the turn always ends in
  \<open>READY_FOR_QUESTIONS\<close>. The file written is not part of the model.
\<close>

definition handleShoppingListGeneration :: "collaborators \<Rightarrow> ConversationEngine \<Rightarrow> outcome" where
  "handleShoppingListGeneration env eng =
     (let shoppingList = generateShoppingList eng;
          workflowPlan = planWorkflow (workflowPlanning env) (confirmedMenu eng)
      in (setState READY_FOR_QUESTIONS eng,
          Inr (ShoppingListAndWorkflow shoppingList workflowPlan, READY_FOR_QUESTIONS)))"

definition handleWorkflowPlanning :: "collaborators \<Rightarrow> ConversationEngine \<Rightarrow> outcome" where
  "handleWorkflowPlanning env eng =
     (let workflowPlan = planWorkflow (workflowPlanning env) (confirmedMenu eng)
      in (setState READY_FOR_QUESTIONS eng, Inr (WorkflowOnly workflowPlan, READY_FOR_QUESTIONS)))"

text \<open>
  \<open>confirmMenu\<close> resolves the names one after the other; a name the knowledge base
  does not know is skipped, a knowledge base that cannot be loaded throws.
\<close>

fun resolveDishes ::
  "data_files \<Rightarrow> KnowledgeBase \<Rightarrow> jstring list \<Rightarrow> KnowledgeBase \<times> (error + ProcessedRecipe list)" where
  "resolveDishes fs kb [] = (kb, Inr [])"
| "resolveDishes fs kb (name # rest) =
     (case getDishByName fs kb name of
        (kb1, Inl e) \<Rightarrow> (kb1, Inl e)
      | (kb1, Inr recipe) \<Rightarrow>
          (case resolveDishes fs kb1 rest of
             (kb2, Inl e) \<Rightarrow> (kb2, Inl e)
           | (kb2, Inr recipes) \<Rightarrow>
               (kb2, Inr (case recipe of Some r \<Rightarrow> r # recipes | None \<Rightarrow> recipes))))"

definition confirmMenu ::
  "collaborators \<Rightarrow> ConversationEngine \<Rightarrow> jstring list \<Rightarrow> ConversationEngine \<times> (error + unit)" where
  "confirmMenu env eng confirmedDishNames =
     (case resolveDishes (dataFiles env) (knowledgeBase eng) confirmedDishNames of
        (kb, Inl e) \<Rightarrow> (eng\<lparr>knowledgeBase := kb\<rparr>, Inl e)
      | (kb, Inr confirmedRecipes) \<Rightarrow>
          (setState GENERATING_SHOPPING_LIST
             (eng\<lparr>knowledgeBase := kb, confirmedMenu := confirmedRecipes\<rparr>), Inr ()))"

text \<open>
  The match of the replace pattern: one of three two-character keywords, then at least
  one character that is not a line terminator, as few as possible, up to the end of
  the input or an ideographic comma or full stop; the leftmost match wins.
\<close>

definition lineTerminator :: "nat \<Rightarrow> bool" where
  "lineTerminator c = (c \<in> {0x0A, 0x0D, 0x2028, 0x2029})"

fun lazyUntilStop :: "jstring \<Rightarrow> jstring option" where
  "lazyUntilStop [] = Some []"
| "lazyUntilStop (c # cs) =
     (if c = 0xFF0C \<or> c = 0x3002 then Some []
      else if lineTerminator c then None
      else map_option ((#) c) (lazyUntilStop cs))"

definition captureAfter :: "jstring \<Rightarrow> jstring option" where
  "captureAfter s =
     (case s of
        [] \<Rightarrow> None
      | c # cs \<Rightarrow> if lineTerminator c then None else map_option ((#) c) (lazyUntilStop cs))"

fun replaceMatch :: "jstring \<Rightarrow> jstring option" where
  "replaceMatch [] = None"
| "replaceMatch (c # cs) =
     (if startsWith (c # cs) [0x6362, 0x6389] \<or> startsWith (c # cs) [0x66FF, 0x6362]
         \<or> startsWith (c # cs) [0x4E0D, 0x8981]
      then (case captureAfter (drop 1 cs) of
              Some captured \<Rightarrow> Some captured
            | None \<Rightarrow> replaceMatch cs)
      else replaceMatch cs)"

definition replaceDish ::
  "collaborators \<Rightarrow> ConversationEngine \<Rightarrow> jstring \<Rightarrow>
   ConversationEngine \<times> (error + ProcessedRecipe list)" where
  "replaceDish env eng oldDishName =
     (let currentDishNames = map dishName (confirmedMenu eng);
          currentDishNamesExcludingOld = filter (\<lambda>name. name \<noteq> oldDishName) currentDishNames
      in case getRecommendedCandidates (dataFiles env) (toLowerCase env) (knowledgeBase eng)
                (userPreferences eng) of
           (kb, Inl e) \<Rightarrow> (eng\<lparr>knowledgeBase := kb\<rparr>, Inl e)
         | (kb, Inr suggestions') \<Rightarrow>
             (eng\<lparr>knowledgeBase := kb\<rparr>,
              Inr (slice0 (filter (\<lambda>recipe. \<not> arr_includes currentDishNamesExcludingOld
                                                  (dishName recipe))
                             (mainDishes suggestions' @ vegetableDishes suggestions'
                              @ soups suggestions')) (Finite 5))))"

definition handleMenuResponse :: "collaborators \<Rightarrow> ConversationEngine \<Rightarrow> jstring \<Rightarrow> outcome" where
  "handleMenuResponse env eng userInput =
     (case interpretFollowUpRequest (toLowerCase env) (intentExtraction env userInput [])
             userInput of
        confirm_menu \<Rightarrow>
          (case confirmMenu env eng (map item_dishName (recommendedMenu eng)) of
             (eng1, Inl e) \<Rightarrow> (eng1, Inl e)
           | (eng1, Inr u) \<Rightarrow> handleShoppingListGeneration env eng1)
      | replace_dish \<Rightarrow>
          (case replaceMatch userInput of
             Some captured \<Rightarrow>
               (case replaceDish env eng (trim captured) of
                  (eng1, Inl e) \<Rightarrow> (eng1, Inl e)
                | (eng1, Inr alternatives) \<Rightarrow>
                    if length alternatives > 0
                    then (eng1, Inr (ReplacementOptions (trim captured) (slice0 alternatives (Finite 3)),
                                     RECOMMENDING_MENU))
                    else (eng1, Inr (NoReplacement, RECOMMENDING_MENU)))
           | None \<Rightarrow> (eng, Inr (NoReplacement, RECOMMENDING_MENU)))
      | modify_preferences newPreferences \<Rightarrow> handlePreferenceInput env eng userInput
      | ask_question \<Rightarrow> (eng, Inr (NotUnderstood, RECOMMENDING_MENU))
      | unknown \<Rightarrow> (eng, Inr (NotUnderstood, RECOMMENDING_MENU)))"

definition isResetRequest :: "(jstring \<Rightarrow> jstring) \<Rightarrow> jstring \<Rightarrow> bool" where
  "isResetRequest lower userInput =
     (let lowerInput = lower userInput
      in str_includes lowerInput [0x91CD, 0x65B0, 0x5F00, 0x59CB]
         \<or> str_includes lowerInput [0x91CD, 0x65B0, 0x89C4, 0x5212])"

definition handleQuestionInput :: "collaborators \<Rightarrow> ConversationEngine \<Rightarrow> jstring \<Rightarrow> outcome" where
  "handleQuestionInput env eng userInput =
     (if isResetRequest (toLowerCase env) userInput
      then (reset eng, Inr (WelcomeMessage, AWAITING_PREFERENCES))
      else (case find (\<lambda>recipe. str_includes userInput (dishName recipe)) (confirmedMenu eng) of
              Some recipe \<Rightarrow> (eng, Inr (RecipeAnswer recipe, READY_FOR_QUESTIONS))
            | None \<Rightarrow> (eng, Inr (AskAboutMenu, READY_FOR_QUESTIONS))))"

text \<open>
  \<open>processUserInput\<close>: the user's message is appended, the handler of the current
  state runs, and an error it throws is caught and reported with the state the engine
  is in at that moment.
\<close>

definition dispatch :: "collaborators \<Rightarrow> ConversationEngine \<Rightarrow> jstring \<Rightarrow> outcome" where
  "dispatch env eng userInput =
     (case state eng of
        AWAITING_PREFERENCES \<Rightarrow> handlePreferenceInput env eng userInput
      | RECOMMENDING_MENU \<Rightarrow> handleMenuResponse env eng userInput
      | GENERATING_SHOPPING_LIST \<Rightarrow> handleShoppingListGeneration env eng
      | PLANNING_WORKFLOW \<Rightarrow> handleWorkflowPlanning env eng
      | READY_FOR_QUESTIONS \<Rightarrow> handleQuestionInput env eng userInput)"

definition processUserInput ::
  "collaborators \<Rightarrow> ConversationEngine \<Rightarrow> jstring \<Rightarrow>
   ConversationEngine \<times> reply \<times> ConversationState" where
  "processUserInput env eng userInput =
     (case dispatch env (addMessage User (Typed userInput) eng) userInput of
        (eng1, Inr (message, reported)) \<Rightarrow> (eng1, message, reported)
      | (eng1, Inl e) \<Rightarrow> (eng1, ErrorMessage e, state eng1))"

section \<open>DatabaseBuilder\<close>

text \<open>The index entry \<open>buildDatabases\<close> derives from an enriched record.\<close>

definition indexEntry :: "ProcessedRecipe \<Rightarrow> RecipeIndex" where
  "indexEntry recipe =
     \<lparr>idx_dishName = dishName recipe, idx_category = category recipe,
      idx_difficulty = difficulty recipe, idx_tags = tags recipe\<rparr>"


section \<open>Example data\<close>

text \<open>
  A lower-casing function for the examples: it maps the Latin capitals to small letters
  and leaves every other code unit alone, as \<open>toLowerCase\<close> does on the strings of
  the examples (ASCII and Chinese text).
\<close>

definition toLowerCase_ascii :: "jstring \<Rightarrow> jstring" where
  "toLowerCase_ascii s = map (\<lambda>c. if 0x41 \<le> c \<and> c \<le> 0x5A then c + 0x20 else c) s"

definition noContent :: RawContent where
  "noContent = \<lparr>description = None, ingredientsAndTools = None, calculation = None,
                 steps = None, additionalContent = None\<rparr>"

text \<open>A dish whose name contains the character for "hot", and one with no keyword at all.\<close>

definition spicyRecipe :: RawRecipe where
  "spicyRecipe = \<lparr>dishName = [0x8FA3, 0x5B50, 0x9E21], sourceFile = ascii ''a.md'',
                   contentHash = ascii ''h1'', category = ascii ''meat_dish'',
                   rawContent = noContent\<rparr>"

definition plainRecipe :: RawRecipe where
  "plainRecipe = \<lparr>dishName = ascii ''Tofu'', sourceFile = ascii ''tofu.md'',
                   contentHash = ascii ''h2'', category = ascii ''vegetable_dish'',
                   rawContent = noContent\<rparr>"

text \<open>An earlier run enriched \<open>plainRecipe\<close>; the collaborator of the examples always fails.\<close>

definition plainEnriched :: ProcessedRecipe where
  "plainEnriched = withTags plainRecipe
     \<lparr>taste = [[0x9C9C]], cookingStyle = [[0x7092]], season = [[0x590F]],
      suitability = [kid_friendly]\<rparr> 2"

definition previousRun :: "jstring \<rightharpoonup> ProcessedRecipe" where
  "previousRun = [dishName plainRecipe \<mapsto> plainEnriched]"

definition defaultConfig :: DataProcessingConfig where
  "defaultConfig = \<lparr>maxConcurrentRequests = 5, requestDelayMs = 1000, batchSize = 10\<rparr>"

definition failingTagger :: "nat \<Rightarrow> RawRecipe \<Rightarrow> RecipeTags option" where
  "failingTagger n r = None"

text \<open>Candidate buckets, preferences and menu items for the recommender.\<close>

definition exampleDish :: "jstring \<Rightarrow> jstring \<Rightarrow> jstring list \<Rightarrow> ProcessedRecipe" where
  "exampleDish name cat suit =
     \<lparr>dishName = name, sourceFile = name @ ascii ''.md'', contentHash = ascii ''h'',
      category = cat, rawContent = noContent, difficulty = Some 1,
      tags = \<lparr>taste = [[0x9999]], cookingStyle = [[0x7092]], season = four_seasons,
              suitability = suit\<rparr>\<rparr>"

definition exampleCandidates :: CandidateDishes where
  "exampleCandidates =
     \<lparr>mainDishes = [exampleDish (ascii ''M1'') (ascii ''meat_dish'') [],
                    exampleDish (ascii ''M2'') (ascii ''aquatic'') [],
                    exampleDish (ascii ''M3'') (ascii ''meat_dish'') []],
      vegetableDishes = [exampleDish (ascii ''V1'') (ascii ''vegetable_dish'') [],
                         exampleDish (ascii ''V2'') (ascii ''vegetable_dish'') []],
      soups = [exampleDish (ascii ''S1'') (ascii ''soup'') []]\<rparr>"

definition threePeople :: UserPreferences where
  "threePeople = \<lparr>peopleCount = Value (Finite 3), tastePreferences = Value [[0x8FA3]],
                   ingredientExclusions = Absent, specialGroup = Absent,
                   maxCookingTimeMinutes = Absent\<rparr>"

definition menuItem :: "jstring \<Rightarrow> MenuRecommendation" where
  "menuItem name = \<lparr>item_dishName = name, recommendationReason = ascii ''good''\<rparr>"


text \<open>
  A knowledge base of three dishes, and one whose index names a dish that the data
  table lacks. Both are loaded, so the files are not read.
\<close>

definition chicken :: ProcessedRecipe where
  "chicken = exampleDish (ascii ''Chicken'') (ascii ''meat_dish'') []"

definition greens :: ProcessedRecipe where
  "greens = exampleDish (ascii ''Greens'') (ascii ''vegetable_dish'') [kid_friendly, pregnancy_safe]"

definition hotpot :: ProcessedRecipe where
  "hotpot = (exampleDish (ascii ''Hotpot'') (ascii ''meat_dish'') [])
              \<lparr>tags := \<lparr>taste = [[0x8FA3]], cookingStyle = [[0x716E]], season = four_seasons,
                        suitability = []\<rparr>\<rparr>"

definition exampleKB :: KnowledgeBase where
  "exampleKB =
     \<lparr>recipesData = [ascii ''Chicken'' \<mapsto> chicken, ascii ''Greens'' \<mapsto> greens,
                     ascii ''Hotpot'' \<mapsto> hotpot],
      recipesIndex = [indexEntry chicken, indexEntry greens, indexEntry hotpot],
      isLoaded = True\<rparr>"

definition inconsistentKB :: KnowledgeBase where
  "inconsistentKB =
     \<lparr>recipesData = [ascii ''Chicken'' \<mapsto> chicken, ascii ''Greens'' \<mapsto> greens],
      recipesIndex = [indexEntry chicken, indexEntry greens, indexEntry hotpot],
      isLoaded = True\<rparr>"

definition noFiles :: data_files where
  "noFiles = \<lparr>index_file = Missing, data_file = Missing\<rparr>"


definition sourPreferences :: UserPreferences where
  "sourPreferences = emptyPreferences\<lparr>peopleCount := Value (Finite 2), tastePreferences := Value [[0x9178]]\<rparr>"

definition hotPreferences :: UserPreferences where
  "hotPreferences = emptyPreferences\<lparr>peopleCount := Value (Finite 2), tastePreferences := Value [[0x8FA3]]\<rparr>"

definition kidPreferences :: UserPreferences where
  "kidPreferences = emptyPreferences\<lparr>peopleCount := Value (Finite 3), specialGroup := Value [ascii ''kid'']\<rparr>"

definition exclusionPreferences :: UserPreferences where
  "exclusionPreferences =
     emptyPreferences\<lparr>peopleCount := Value (Finite 2), ingredientExclusions := Value [ascii ''peanut'']\<rparr>"


text \<open>
  Engines and a turn for the dialogue: an engine that has just started on a knowledge
  base that could not be loaded (the artifacts are missing), one that has proposed a
  menu, and one that has confirmed it. The collaborators of the turn extract "three
  people, hot" from whatever is said; the other two fail.
\<close>

definition freshEngine :: ConversationEngine where
  "freshEngine =
     \<lparr>state = AWAITING_PREFERENCES, messages = [], userPreferences = emptyPreferences,
      recommendedMenu = [], confirmedMenu = [],
      knowledgeBase = \<lparr>recipesData = Map.empty, recipesIndex = [], isLoaded = False\<rparr>\<rparr>"

definition proposingEngine :: ConversationEngine where
  "proposingEngine =
     \<lparr>state = RECOMMENDING_MENU, messages = [], userPreferences = hotPreferences,
      recommendedMenu = [menuItem (ascii ''Hotpot'')], confirmedMenu = [],
      knowledgeBase = exampleKB\<rparr>"

definition answeringEngine :: ConversationEngine where
  "answeringEngine =
     \<lparr>state = READY_FOR_QUESTIONS, messages = [], userPreferences = hotPreferences,
      recommendedMenu = [menuItem (ascii ''Hotpot'')], confirmedMenu = [hotpot],
      knowledgeBase = exampleKB\<rparr>"

definition threeAndHot :: UserPreferences where
  "threeAndHot = emptyPreferences\<lparr>peopleCount := Value (Finite 3), tastePreferences := Value [[0x8FA3]]\<rparr>"

definition exampleTurn :: collaborators where
  "exampleTurn =
     \<lparr>toLowerCase = toLowerCase_ascii, dataFiles = noFiles,
      intentExtraction = (\<lambda>userInput history. Some threeAndHot),
      menuRecommendation = (\<lambda>preferences candidates. None),
      workflowPlanning = (\<lambda>detailed menu. None)\<rparr>"

text \<open>
  An engine that is still gathering preferences and holds a people count and an
  excluded ingredient, and a turn whose intent extraction fails.
\<close>

definition collectingEngine :: ConversationEngine where
  "collectingEngine =
     freshEngine\<lparr>userPreferences :=
                   emptyPreferences\<lparr>peopleCount := Value (Finite 3),
                                     ingredientExclusions := Value [ascii ''peanut'']\<rparr>\<rparr>"

definition failingExtraction :: collaborators where
  "failingExtraction = exampleTurn\<lparr>intentExtraction := (\<lambda>userInput history. None)\<rparr>"

definition resetWords :: jstring where
  "resetWords = [0x91CD, 0x65B0, 0x5F00, 0x59CB]"

definition firstWords :: jstring where
  "firstWords = ascii ''3 people, spicy''"


section \<open>Properties of the tagger\<close>

subsection \<open>Incremental enrichment\<close>

lemma unchanged_iff:
  "unchanged existingData r \<longleftrightarrow>
     (\<exists>e. existingData (dishName r) = Some e \<and> contentHash e = contentHash r)"
  by (simp add: unchanged_def split: option.split)

lemma tagRecipe_Some: "\<exists>p. tagRecipe lower answer r = Some p"
  by (cases answer) (simp_all add: tagRecipe_def)

lemma tagStep_calls:
  "llm_calls (tagStep cfg lower llm ex r st) =
     llm_calls st @ (if unchanged ex r then [] else [r])"
  by (auto simp: tagStep_def Let_def split: option.split)

lemma tagStep_processed:
  "\<exists>p. processedRecipes (tagStep cfg lower llm ex r st) = processedRecipes st @ [p] \<and>
       (unchanged ex r \<longrightarrow> Some p = ex (dishName r))"
proof (cases "unchanged ex r")
  case True
  then show ?thesis by (auto simp: tagStep_def unchanged_iff)
next
  case False
  obtain p where "tagRecipe lower (llm (length (llm_calls st)) r) r = Some p"
    using tagRecipe_Some by blast
  with False show ?thesis by (simp add: tagStep_def Let_def)
qed

lemma tagLoop_calls:
  "llm_calls (tagLoop cfg lower llm ex rs st) =
     llm_calls st @ filter (\<lambda>r. \<not> unchanged ex r) rs"
  by (induction rs arbitrary: st) (simp_all add: tagStep_calls)

lemma tagLoop_processed:
  "\<exists>ps. processedRecipes (tagLoop cfg lower llm ex rs st) = processedRecipes st @ ps \<and>
        list_all2 (\<lambda>r p. unchanged ex r \<longrightarrow> Some p = ex (dishName r)) rs ps"
proof (induction rs arbitrary: st)
  case Nil
  then show ?case by simp
next
  case (Cons r rs)
  obtain p where p: "processedRecipes (tagStep cfg lower llm ex r st) = processedRecipes st @ [p]"
      "unchanged ex r \<longrightarrow> Some p = ex (dishName r)"
    using tagStep_processed by blast
  obtain ps where ps:
      "processedRecipes (tagLoop cfg lower llm ex rs (tagStep cfg lower llm ex r st)) =
         processedRecipes (tagStep cfg lower llm ex r st) @ ps"
      "list_all2 (\<lambda>r p. unchanged ex r \<longrightarrow> Some p = ex (dishName r)) rs ps"
    using Cons.IH by blast
  have "processedRecipes (tagLoop cfg lower llm ex (r # rs) st) = processedRecipes st @ (p # ps)"
    using p(1) ps(1) by simp
  moreover have "list_all2 (\<lambda>r p. unchanged ex r \<longrightarrow> Some p = ex (dishName r)) (r # rs) (p # ps)"
    using p(2) ps(2) by simp
  ultimately show ?case by blast
qed


lemma tagLoop_all_unchanged:
  "\<forall>r \<in> set rs. unchanged ex r \<Longrightarrow>
   tagLoop cfg lower llm ex rs st =
     st\<lparr>processedRecipes := processedRecipes st @ map (\<lambda>r. the (ex (dishName r))) rs\<rparr>"
  by (induction rs arbitrary: st) (simp_all add: tagStep_def)


text \<open>
  Claim C1. For every batch of raw records and every map of previously enriched records,
  \<open>tagRecipesIncremental\<close> returns one record per raw record; at the position of each
  raw record whose identifier has a previous enriched record with a stored fingerprint
  equal to the record's content hash it returns exactly that previous record, and that
  raw record is not among the records sent to the tagging collaborator. A batch in
  which every record is unchanged makes no collaborator call (and awaits no delay).
\<close>

theorem enrichIncremental_reuses_unchanged:
  "let st = tagRecipesIncremental cfg lower llm rawRecipes existingData in
     length (processedRecipes st) = length rawRecipes \<and>
     (\<forall>i < length rawRecipes. \<forall>previous.
        existingData (dishName (rawRecipes ! i)) = Some previous \<and>
        contentHash previous = contentHash (rawRecipes ! i)
        \<longrightarrow> processedRecipes st ! i = previous) \<and>
     (\<forall>r \<in> set rawRecipes. \<forall>previous.
        existingData (dishName r) = Some previous \<and> contentHash previous = contentHash r
        \<longrightarrow> r \<notin> set (llm_calls st)) \<and>
     ((\<forall>r \<in> set rawRecipes. \<exists>previous.
        existingData (dishName r) = Some previous \<and> contentHash previous = contentHash r)
      \<longrightarrow> llm_calls st = [] \<and> apiCallCount st = 0 \<and> delays st = [])"
proof -
  define st where "st = tagRecipesIncremental cfg lower llm rawRecipes existingData"
  define st0 :: tagger_state
    where "st0 = \<lparr>processedRecipes = [], apiCallCount = 0, llm_calls = [], delays = []\<rparr>"
  have st: "st = tagLoop cfg lower llm existingData rawRecipes st0"
    by (simp add: st_def st0_def tagRecipesIncremental_def)
  obtain ps where ps: "processedRecipes st = ps"
      "list_all2 (\<lambda>r p. unchanged existingData r \<longrightarrow> Some p = existingData (dishName r))
         rawRecipes ps"
    using tagLoop_processed [of cfg lower llm existingData rawRecipes st0]
    by (auto simp: st st0_def)
  have len: "length (processedRecipes st) = length rawRecipes"
    using ps by (simp add: list_all2_lengthD)
  have hit: "processedRecipes st ! i = previous"
    if "i < length rawRecipes" "existingData (dishName (rawRecipes ! i)) = Some previous"
       "contentHash previous = contentHash (rawRecipes ! i)" for i previous
  proof -
    have "unchanged existingData (rawRecipes ! i)"
      using that by (auto simp: unchanged_iff)
    then have "Some (ps ! i) = existingData (dishName (rawRecipes ! i))"
      using ps(2) that(1) by (simp add: list_all2_conv_all_nth)
    then show ?thesis using that(2) ps(1) by simp
  qed
  have calls: "llm_calls st = filter (\<lambda>r. \<not> unchanged existingData r) rawRecipes"
    by (simp add: st tagLoop_calls st0_def)
  have nocall: "r \<notin> set (llm_calls st)"
    if "existingData (dishName r) = Some previous" "contentHash previous = contentHash r"
    for r previous
    using that by (auto simp: calls unchanged_iff)
  have allhit: "llm_calls st = [] \<and> apiCallCount st = 0 \<and> delays st = []"
    if "\<forall>r \<in> set rawRecipes. \<exists>previous.
          existingData (dishName r) = Some previous \<and> contentHash previous = contentHash r"
  proof -
    have "\<forall>r \<in> set rawRecipes. unchanged existingData r"
      using that by (simp add: unchanged_iff)
    then show ?thesis
      by (simp add: st tagLoop_all_unchanged st0_def)
  qed
  show ?thesis
    unfolding Let_def st_def [symmetric]
    using len hit nocall allhit by blast
qed

text \<open>
  The theorem at a batch of an unchanged record and a new one: the first is returned
  from the previous run and never sent out; and at a batch of the unchanged record
  alone, where nothing is sent out.
\<close>

theorem enrichIncremental_reuses_unchanged_witness:
  "processedRecipes (tagRecipesIncremental defaultConfig toLowerCase_ascii failingTagger
                       [plainRecipe, spicyRecipe] previousRun) ! 0 = plainEnriched \<and>
   plainRecipe \<notin> set (llm_calls (tagRecipesIncremental defaultConfig toLowerCase_ascii
                                     failingTagger [plainRecipe, spicyRecipe] previousRun)) \<and>
   llm_calls (tagRecipesIncremental defaultConfig toLowerCase_ascii failingTagger
                [plainRecipe] previousRun) = []"
proof -
  have prev: "previousRun (dishName plainRecipe) = Some plainEnriched"
    by (simp add: previousRun_def)
  have hash: "contentHash plainEnriched = contentHash plainRecipe"
    by (simp add: plainEnriched_def withTags_def)
  have two: "processedRecipes (tagRecipesIncremental defaultConfig toLowerCase_ascii failingTagger
                       [plainRecipe, spicyRecipe] previousRun) ! 0 = plainEnriched \<and>
     plainRecipe \<notin> set (llm_calls (tagRecipesIncremental defaultConfig toLowerCase_ascii
                                     failingTagger [plainRecipe, spicyRecipe] previousRun))"
    using enrichIncremental_reuses_unchanged
            [of defaultConfig toLowerCase_ascii failingTagger "[plainRecipe, spicyRecipe]"
                previousRun]
          prev hash
    unfolding Let_def by auto
  have one: "llm_calls (tagRecipesIncremental defaultConfig toLowerCase_ascii failingTagger
                [plainRecipe] previousRun) = []"
    using enrichIncremental_reuses_unchanged
            [of defaultConfig toLowerCase_ascii failingTagger "[plainRecipe]" previousRun]
          prev hash
    unfolding Let_def by simp
  show ?thesis using two one by simp
qed

subsection \<open>Fallback tags\<close>

lemma kid_neq_pregnancy: "kid_friendly \<noteq> pregnancy_safe"
  by (simp add: kid_friendly_def pregnancy_safe_def ascii_def)

lemma pushIf_none: "\<forall>k \<in> set kws. \<not> str_includes t k \<Longrightarrow> pushIf t kws tag = []"
  by (simp add: pushIf_def list_ex_iff)

lemma default_pushed: "(if length s = 0 then s @ [x] else s) \<noteq> []"
  by (cases s) simp_all

lemma default_by_category_pushed:
  "(if length s = 0
    then (if c1 then s @ [x1] else if c2 then s @ [x2] else if c3 then s @ [x3] else s @ [x4])
    else s) \<noteq> []"
  by (cases s) simp_all

lemma inferTaste_nonempty: "inferTaste t \<noteq> []"
  unfolding inferTaste_def Let_def by (rule default_pushed)

lemma inferCookingStyle_nonempty: "inferCookingStyle t c \<noteq> []"
  unfolding inferCookingStyle_def Let_def by (rule default_by_category_pushed)

lemma inferTaste_default:
  assumes "\<forall>k \<in> set [[0x8FA3], [0x6912], [0x9EBB], [0x9178], [0x918B], [0x67E0, 0x6AAC], [0x751C],
               [0x7CD6], [0x871C], [0x54B8], [0x76D0], [0x9171, 0x6CB9], [0x9C9C],
               [0x5473, 0x7CBE], [0x9E21, 0x7CBE]]. \<not> str_includes t k"
  shows "inferTaste t = [[0x9999]]"
proof -
  have "pushIf t [[0x8FA3], [0x6912], [0x9EBB]] [0x8FA3] = []"
       "pushIf t [[0x9178], [0x918B], [0x67E0, 0x6AAC]] [0x9178] = []"
       "pushIf t [[0x751C], [0x7CD6], [0x871C]] [0x751C] = []"
       "pushIf t [[0x54B8], [0x76D0], [0x9171, 0x6CB9]] [0x54B8] = []"
       "pushIf t [[0x9C9C], [0x5473, 0x7CBE], [0x9E21, 0x7CBE]] [0x9C9C] = []"
    using assms by (simp_all add: pushIf_none)
  then show ?thesis
    by (simp add: inferTaste_def)
qed

lemma inferCookingStyle_default:
  assumes "\<forall>k \<in> set [[0x7092], [0x84B8], [0x7096], [0x7168], [0x70B8], [0x51C9, 0x62CC], [0x62CC],
               [0x70E4], [0x70E7], [0x7EA2, 0x70E7], [0x7116], [0x716E], [0x6C34, 0x716E],
               [0x714E], [0x70D9], [0x6C46]]. \<not> str_includes t k"
  shows "inferCookingStyle t c =
     (if c = ascii ''soup'' then [[0x716E]]
      else if c = ascii ''meat_dish'' then [[0x70E7]] else [[0x7092]])"
proof -
  have "pushIf t [[0x7092]] [0x7092] = []"
       "pushIf t [[0x84B8]] [0x84B8] = []"
       "pushIf t [[0x7096], [0x7168]] [0x7096] = []"
       "pushIf t [[0x70B8]] [0x70B8] = []"
       "pushIf t [[0x51C9, 0x62CC], [0x62CC]] [0x51C9, 0x62CC] = []"
       "pushIf t [[0x70E4]] [0x70E4] = []"
       "pushIf t [[0x70E7], [0x7EA2, 0x70E7]] [0x70E7] = []"
       "pushIf t [[0x7116]] [0x7116] = []"
       "pushIf t [[0x716E], [0x6C34, 0x716E]] [0x716E] = []"
       "pushIf t [[0x714E]] [0x714E] = []"
       "pushIf t [[0x70D9]] [0x70D9] = []"
       "pushIf t [[0x6C46]] [0x6C46] = []"
    using assms by (simp_all add: pushIf_none)
  then show ?thesis
    by (simp add: inferCookingStyle_def ascii_def)
qed

lemma inferSuitability_kid:
  "kid_friendly \<in> set (inferSuitability t) \<longleftrightarrow> \<not> hasDangerousIngredients t \<and> \<not> isSpicy t"
  using kid_neq_pregnancy by (auto simp: inferSuitability_def)

lemma inferSuitability_pregnancy:
  "pregnancy_safe \<in> set (inferSuitability t) \<longleftrightarrow> \<not> hasDangerousIngredients t"
  using kid_neq_pregnancy by (auto simp: inferSuitability_def)

lemma clamped: "1 \<le> min 5 (max 1 (x :: int)) \<and> min 5 (max 1 x) \<le> 5"
  by simp

lemma estimateDifficulty_range: "1 \<le> estimateDifficulty r \<and> estimateDifficulty r \<le> 5"
  unfolding estimateDifficulty_def Let_def by (rule clamped)

text \<open>
  Claim C5, as the code has it. For every raw record, when the tagging collaborator
  fails, \<open>tagRecipe\<close> still returns a record. Its taste set is not empty, and is the
  default label alone when no taste keyword occurs in the text; its cooking-style set
  is not empty, and is the default of the category when no cooking keyword occurs; its
  seasons are all four; it is flagged kid-friendly exactly when the text has neither a
  risk keyword nor a spice keyword, and flagged pregnancy-safe exactly when the text
  has no risk keyword (spice keywords do not matter for this flag); its difficulty lies
  between 1 and 5.
\<close>

theorem fallback_totality:
  "\<exists>p. tagRecipe lower None rawRecipe = Some p \<and>
       taste (tags p) \<noteq> [] \<and>
       ((\<forall>k \<in> set [[0x8FA3], [0x6912], [0x9EBB], [0x9178], [0x918B], [0x67E0, 0x6AAC],
                    [0x751C], [0x7CD6], [0x871C], [0x54B8], [0x76D0], [0x9171, 0x6CB9],
                    [0x9C9C], [0x5473, 0x7CBE], [0x9E21, 0x7CBE]].
           \<not> str_includes (fallbackText lower rawRecipe) k)
        \<longrightarrow> taste (tags p) = [[0x9999]]) \<and>
       cookingStyle (tags p) \<noteq> [] \<and>
       ((\<forall>k \<in> set [[0x7092], [0x84B8], [0x7096], [0x7168], [0x70B8], [0x51C9, 0x62CC],
                    [0x62CC], [0x70E4], [0x70E7], [0x7EA2, 0x70E7], [0x7116], [0x716E],
                    [0x6C34, 0x716E], [0x714E], [0x70D9], [0x6C46]].
           \<not> str_includes (fallbackText lower rawRecipe) k)
        \<longrightarrow> cookingStyle (tags p) =
              (if category rawRecipe = ascii ''soup'' then [[0x716E]]
               else if category rawRecipe = ascii ''meat_dish'' then [[0x70E7]]
               else [[0x7092]])) \<and>
       season (tags p) = [[0x6625], [0x590F], [0x79CB], [0x51AC]] \<and>
       (kid_friendly \<in> set (suitability (tags p)) \<longleftrightarrow>
          \<not> hasDangerousIngredients (fallbackText lower rawRecipe) \<and>
          \<not> isSpicy (fallbackText lower rawRecipe)) \<and>
       (pregnancy_safe \<in> set (suitability (tags p)) \<longleftrightarrow>
          \<not> hasDangerousIngredients (fallbackText lower rawRecipe)) \<and>
       (\<exists>d. difficulty p = Some d \<and> 1 \<le> d \<and> d \<le> 5)"
proof -
  define t where "t = fallbackText lower rawRecipe"
  define p where "p = withTags rawRecipe (generateFallbackTags lower rawRecipe)
                        (estimateDifficulty rawRecipe)"
  have p: "tagRecipe lower None rawRecipe = Some p"
    by (simp add: tagRecipe_def p_def)
  have tg: "tags p = \<lparr>taste = inferTaste t, cookingStyle = inferCookingStyle t (category rawRecipe),
                      season = four_seasons, suitability = inferSuitability t\<rparr>"
    by (simp add: p_def withTags_def generateFallbackTags_def Let_def t_def)
  have d: "difficulty p = Some (estimateDifficulty rawRecipe)"
    by (simp add: p_def withTags_def)
  show ?thesis
    unfolding t_def [symmetric]
    using p tg d inferTaste_nonempty [of t] inferTaste_default [of t]
      inferCookingStyle_nonempty [of t "category rawRecipe"]
      inferCookingStyle_default [of t "category rawRecipe"]
      inferSuitability_kid [of t] inferSuitability_pregnancy [of t]
      estimateDifficulty_range [of rawRecipe]
    by (simp add: four_seasons_def)
qed

text \<open>The record without keywords, evaluated piece by piece.\<close>

lemma Math_round_1: "Math_round 1 = 1"
  by (simp add: Math_round_def floor_eq_iff)

lemma no_steps_counted:
  "length (filter (\<lambda>s. length (trim s) > 10) (split_class step_delimiter [])) = 0"
  by (simp add: trim_def)

lemma no_complex_method: "\<not> list_ex (\<lambda>method. str_includes [] method) complexMethods"
  by (simp add: complexMethods_def)

lemma no_ingredient_lines:
  "length (filter (\<lambda>line. length (trim line) > 0) (split_str [0x5C, 0x6E] [])) = 0"
  by (simp add: trim_def)

lemma plainRecipe_content:
  "steps (rawContent plainRecipe) = None" "ingredientsAndTools (rawContent plainRecipe) = None"
  by (simp_all add: plainRecipe_def noContent_def)

lemma plainRecipe_difficulty: "estimateDifficulty plainRecipe = 1"
  unfolding estimateDifficulty_def plainRecipe_content orEmpty_def option.case Let_def
    no_steps_counted no_ingredient_lines
  by (simp add: no_complex_method Math_round_1)

lemma plainRecipe_text: "fallbackText toLowerCase_ascii plainRecipe = ascii ''tofu  ''"
  by (simp add: fallbackText_def plainRecipe_def noContent_def orEmpty_def
        toLowerCase_ascii_def ascii_def)

lemma plainRecipe_no_risk: "\<not> hasDangerousIngredients (ascii ''tofu  '')"
  by (simp add: hasDangerousIngredients_def dangerousIngredients_def ascii_def)

lemma plainRecipe_no_spice: "\<not> isSpicy (ascii ''tofu  '')"
  by (simp add: isSpicy_def spicyKeywords_def ascii_def)

lemma plainRecipe_no_taste_keyword:
  "\<forall>k \<in> set [[0x8FA3], [0x6912], [0x9EBB], [0x9178], [0x918B], [0x67E0, 0x6AAC],
               [0x751C], [0x7CD6], [0x871C], [0x54B8], [0x76D0], [0x9171, 0x6CB9],
               [0x9C9C], [0x5473, 0x7CBE], [0x9E21, 0x7CBE]].
      \<not> str_includes (ascii ''tofu  '') k"
  by (simp add: ascii_def)

lemma plainRecipe_no_style_keyword:
  "\<forall>k \<in> set [[0x7092], [0x84B8], [0x7096], [0x7168], [0x70B8], [0x51C9, 0x62CC],
               [0x62CC], [0x70E4], [0x70E7], [0x7EA2, 0x70E7], [0x7116], [0x716E],
               [0x6C34, 0x716E], [0x714E], [0x70D9], [0x6C46]].
      \<not> str_includes (ascii ''tofu  '') k"
  by (simp add: ascii_def)

lemma plainRecipe_category: "category plainRecipe = ascii ''vegetable_dish''"
  by (simp add: plainRecipe_def)

lemma vegetable_dish_distinct:
  "ascii ''vegetable_dish'' \<noteq> ascii ''soup''" "ascii ''vegetable_dish'' \<noteq> ascii ''meat_dish''"
  by (simp_all add: ascii_def)

text \<open>
  The theorem at the record without any keyword: every default applies, both flags are
  set and the difficulty is 1.
\<close>

theorem fallback_totality_witness:
  "taste (tags (the (tagRecipe toLowerCase_ascii None plainRecipe))) = [[0x9999]] \<and>
   cookingStyle (tags (the (tagRecipe toLowerCase_ascii None plainRecipe))) = [[0x7092]] \<and>
   kid_friendly \<in> set (suitability (tags (the (tagRecipe toLowerCase_ascii None plainRecipe)))) \<and>
   pregnancy_safe \<in> set (suitability (tags (the (tagRecipe toLowerCase_ascii None plainRecipe)))) \<and>
   difficulty (the (tagRecipe toLowerCase_ascii None plainRecipe)) = Some 1"
proof -
  obtain p where p: "tagRecipe toLowerCase_ascii None plainRecipe = Some p" and
    rest: "taste (tags p) \<noteq> [] \<and>
       ((\<forall>k \<in> set [[0x8FA3], [0x6912], [0x9EBB], [0x9178], [0x918B], [0x67E0, 0x6AAC],
                    [0x751C], [0x7CD6], [0x871C], [0x54B8], [0x76D0], [0x9171, 0x6CB9],
                    [0x9C9C], [0x5473, 0x7CBE], [0x9E21, 0x7CBE]].
           \<not> str_includes (fallbackText toLowerCase_ascii plainRecipe) k)
        \<longrightarrow> taste (tags p) = [[0x9999]]) \<and>
       cookingStyle (tags p) \<noteq> [] \<and>
       ((\<forall>k \<in> set [[0x7092], [0x84B8], [0x7096], [0x7168], [0x70B8], [0x51C9, 0x62CC],
                    [0x62CC], [0x70E4], [0x70E7], [0x7EA2, 0x70E7], [0x7116], [0x716E],
                    [0x6C34, 0x716E], [0x714E], [0x70D9], [0x6C46]].
           \<not> str_includes (fallbackText toLowerCase_ascii plainRecipe) k)
        \<longrightarrow> cookingStyle (tags p) =
              (if category plainRecipe = ascii ''soup'' then [[0x716E]]
               else if category plainRecipe = ascii ''meat_dish'' then [[0x70E7]]
               else [[0x7092]])) \<and>
       season (tags p) = [[0x6625], [0x590F], [0x79CB], [0x51AC]] \<and>
       (kid_friendly \<in> set (suitability (tags p)) \<longleftrightarrow>
          \<not> hasDangerousIngredients (fallbackText toLowerCase_ascii plainRecipe) \<and>
          \<not> isSpicy (fallbackText toLowerCase_ascii plainRecipe)) \<and>
       (pregnancy_safe \<in> set (suitability (tags p)) \<longleftrightarrow>
          \<not> hasDangerousIngredients (fallbackText toLowerCase_ascii plainRecipe)) \<and>
       (\<exists>d. difficulty p = Some d \<and> 1 \<le> d \<and> d \<le> 5)"
    using fallback_totality [of toLowerCase_ascii plainRecipe] by blast
  have "p = withTags plainRecipe (generateFallbackTags toLowerCase_ascii plainRecipe)
                (estimateDifficulty plainRecipe)"
    using p by (simp add: tagRecipe_def)
  then have dp: "difficulty p = Some 1"
    by (simp add: withTags_def plainRecipe_difficulty)
  show ?thesis
    unfolding p option.sel
    using rest dp plainRecipe_no_taste_keyword plainRecipe_no_style_keyword
      plainRecipe_no_risk plainRecipe_no_spice vegetable_dish_distinct
    unfolding plainRecipe_text plainRecipe_category
    by simp
qed

text \<open>
  Claim C5 as the specification words it asks for both suitability flags only in the
  absence of any risk or spice keyword. The record of a dish named with the character
  for "hot" has a spice keyword and is flagged pregnancy-safe all the same.
\<close>

theorem fallback_pregnancy_flag_counterexample:
  "isSpicy (fallbackText toLowerCase_ascii spicyRecipe) \<and>
   pregnancy_safe \<in> set (suitability (tags (the (tagRecipe toLowerCase_ascii None spicyRecipe))))"
proof -
  have ft: "fallbackText toLowerCase_ascii spicyRecipe = [0x8FA3, 0x5B50, 0x9E21, 0x20, 0x20]"
    by (simp add: fallbackText_def spicyRecipe_def noContent_def orEmpty_def
          toLowerCase_ascii_def)
  have spicy: "isSpicy [0x8FA3, 0x5B50, 0x9E21, 0x20, 0x20]"
    by (simp add: isSpicy_def spicyKeywords_def)
  have nodanger: "\<not> hasDangerousIngredients [0x8FA3, 0x5B50, 0x9E21, 0x20, 0x20]"
    by (simp add: hasDangerousIngredients_def dangerousIngredients_def)
  have "suitability (tags (the (tagRecipe toLowerCase_ascii None spicyRecipe)))
          = inferSuitability [0x8FA3, 0x5B50, 0x9E21, 0x20, 0x20]"
    by (simp add: tagRecipe_def withTags_def generateFallbackTags_def Let_def ft)
  then show ?thesis
    using spicy nodanger by (simp add: ft inferSuitability_def)
qed

section \<open>Properties of numbers\<close>

subsection \<open>Rounding is exact on the integers and half-integers up to \<open>2^53\<close>\<close>

lemma bitlen_powi:
  assumes "0 < a"
  shows "(2::rat) powi (bitlen a - 1) \<le> of_int a" and "of_int a < (2::rat) powi (bitlen a)"
proof -
  from bitlen_bounds [OF assms]
  have lo: "2 ^ nat (bitlen a - 1) \<le> a" and hi: "a < 2 ^ nat (bitlen a)" by simp_all
  have pos: "0 < bitlen a" using hi assms by (cases "0 < bitlen a") simp_all
  have "(of_int (2 ^ nat (bitlen a - 1)) :: rat) \<le> of_int a" using lo by (simp only: of_int_le_iff)
  thus "(2::rat) powi (bitlen a - 1) \<le> of_int a" using pos by (simp add: power_int_def)
  have "(of_int a :: rat) < of_int (2 ^ nat (bitlen a))" using hi by (simp only: of_int_less_iff)
  thus "of_int a < (2::rat) powi (bitlen a)" using pos by (simp add: power_int_def)
qed

lemma binaryExponent_le:
  assumes "x \<noteq> 0"
  shows "2 powi (binaryExponent x) \<le> \<bar>x\<bar>"
proof -
  obtain a b where q: "quotient_of \<bar>x\<bar> = (a, b)" by (cases "quotient_of \<bar>x\<bar>")
  have b: "0 < b" using q by (rule quotient_of_denom_pos)
  have x: "\<bar>x\<bar> = of_int a / of_int b" using q by (rule quotient_of_div)
  have "0 < \<bar>x\<bar>" using assms by simp
  hence a: "0 < a" using b x by (simp add: zero_less_divide_iff)
  define d where "d = bitlen a - bitlen b"
  show ?thesis
  proof (cases "2 powi d \<le> \<bar>x\<bar>")
    case True
    thus ?thesis by (simp add: binaryExponent_def q d_def)
  next
    case False
    hence e: "binaryExponent x = d - 1" by (simp add: binaryExponent_def q d_def)
    have d1: "d - 1 = (bitlen a - 1) - bitlen b" by (simp add: d_def)
    have "(2::rat) powi (d - 1) = 2 powi (bitlen a - 1) / 2 powi (bitlen b)"
      unfolding d1 by (rule power_int_diff) simp
    also have "\<dots> \<le> of_int a / 2 powi (bitlen b)"
      using bitlen_powi(1) [OF a] by (simp add: divide_right_mono)
    also have "\<dots> \<le> of_int a / of_int b"
      using bitlen_powi(2) [OF b] a b by (simp add: frac_le)
    finally show ?thesis using e x by simp
  qed
qed

lemma roundHalfEven_of_int: "roundHalfEven (of_int m) = m"
  by (simp add: roundHalfEven_def)

lemma roundToDouble_scaled:
  assumes n: "\<bar>n\<bar> < 2 ^ 53" and j: "- 1074 \<le> j" "j \<le> 971"
  shows "roundToDouble (of_int n * 2 powi j) = Finite (of_int n * 2 powi j)"
proof (cases "n = 0")
  case True
  thus ?thesis by (simp add: roundToDouble_def)
next
  case False
  define x :: rat where "x = of_int n * 2 powi j"
  have x0: "x \<noteq> 0" using False by (simp add: x_def)
  have absx: "\<bar>x\<bar> = of_int \<bar>n\<bar> * 2 powi j" by (simp add: x_def abs_mult)
  have "(of_int \<bar>n\<bar> :: rat) < of_int (2 ^ 53)" using n by (simp only: of_int_less_iff)
  hence n': "(of_int \<bar>n\<bar> :: rat) < 2 powi 53" by simp
  have "\<bar>x\<bar> < 2 powi 53 * 2 powi j" unfolding absx using n' by (simp add: mult_strict_right_mono)
  hence lt: "\<bar>x\<bar> < 2 powi (53 + j)" by (simp add: power_int_add)
  have "(2::rat) powi (binaryExponent x) < 2 powi (53 + j)"
    using binaryExponent_le [OF x0] lt by (rule le_less_trans)
  hence be: "binaryExponent x < 53 + j"
    by (metis linorder_not_less power_int_increasing one_le_numeral)
  define e where "e = max (binaryExponent x - 52) (- 1074)"
  have ej: "e \<le> j" using be j by (simp add: e_def)
  have "x / 2 powi e = of_int n * 2 powi (j - e)" by (simp add: x_def power_int_diff)
  also have "\<dots> = of_int (n * 2 ^ nat (j - e))" using ej by (simp add: power_int_def)
  finally have m: "x / 2 powi e = of_int (n * 2 ^ nat (j - e))" .
  have rescaled: "of_int (roundHalfEven (x / 2 powi e)) * 2 powi e = x"
    unfolding m roundHalfEven_of_int unfolding m [symmetric] by simp
  have "\<bar>x\<bar> < 2 powi 1024"
  proof -
    have "(2::rat) powi (53 + j) \<le> 2 powi 1024" using j by (intro power_int_increasing) simp_all
    with lt show ?thesis by (rule less_le_trans)
  qed
  hence small: "\<not> 2 powi 1024 \<le> \<bar>x\<bar>" by simp
  show ?thesis
    unfolding x_def [symmetric] roundToDouble_def e_def [symmetric] Let_def rescaled
    using x0 small by simp
qed

lemma roundToDouble_int:
  assumes "\<bar>n\<bar> \<le> 2 ^ 53"
  shows "roundToDouble (of_int n) = Finite (of_int n)"
proof (cases "\<bar>n\<bar> = 2 ^ 53")
  case True
  hence "n = 2 ^ 53 \<or> n = - (2 ^ 53)" by linarith
  thus ?thesis
  proof
    assume "n = 2 ^ 53"
    thus ?thesis using roundToDouble_scaled [of "2 ^ 52" 1] by simp
  next
    assume "n = - (2 ^ 53)"
    thus ?thesis using roundToDouble_scaled [of "- (2 ^ 52)" 1] by simp
  qed
next
  case False
  thus ?thesis using roundToDouble_scaled [of n 0] assms by simp
qed

lemma roundToDouble_half:
  assumes "\<bar>n\<bar> \<le> 2 ^ 53"
  shows "roundToDouble (of_int n / 2) = Finite (of_int n / 2)"
proof (cases "\<bar>n\<bar> = 2 ^ 53")
  case True
  hence "n = 2 ^ 53 \<or> n = - (2 ^ 53)" by linarith
  thus ?thesis
  proof
    assume "n = 2 ^ 53"
    thus ?thesis using roundToDouble_scaled [of "2 ^ 52" 0] by simp
  next
    assume "n = - (2 ^ 53)"
    thus ?thesis using roundToDouble_scaled [of "- (2 ^ 52)" 0] by simp
  qed
next
  case False
  thus ?thesis
    using roundToDouble_scaled [of n "- 1"] assms by (simp add: power_int_minus field_simps)
qed

lemma small_doubles:
  "roundToDouble 2 = Finite 2" "roundToDouble 3 = Finite 3" "roundToDouble 4 = Finite 4"
  "roundToDouble 7 = Finite 7" "roundToDouble 8 = Finite 8"
  "roundToDouble (3 / 2) = Finite (3 / 2)" "roundToDouble (7 / 2) = Finite (7 / 2)"
  using roundToDouble_int [of 2] roundToDouble_int [of 3] roundToDouble_int [of 4]
    roundToDouble_int [of 7] roundToDouble_int [of 8]
    roundToDouble_half [of 3] roundToDouble_half [of 7]
  by simp_all

text \<open>
  Beyond \<open>2^53\<close> the integers are no longer all doubles: \<open>2^53 + 1\<close> lies halfway
  between the doubles \<open>2^53\<close> and \<open>2^53 + 2\<close> and is rounded to the former.
\<close>

lemma roundToDouble_beyond: "roundToDouble (2 ^ 53 + 1) = Finite (2 ^ 53)"
  by code_simp

subsection \<open>Signs\<close>


lemma roundHalfEven_nonneg: "0 \<le> y \<Longrightarrow> 0 \<le> roundHalfEven y"
  by (simp add: roundHalfEven_def Let_def)

lemma roundToDouble_nonneg:
  assumes "0 \<le> x"
  shows "roundToDouble x = PosInfinity \<or> (\<exists>y. roundToDouble x = Finite y \<and> 0 \<le> y)"
proof (cases "x = 0")
  case True
  thus ?thesis by (simp add: roundToDouble_def)
next
  case False
  define q :: rat where "q = 2 powi (max (binaryExponent x - 52) (- 1074))"
  have q: "0 < q" by (simp add: q_def)
  have "0 \<le> x / q" using assms q by simp
  hence "0 \<le> roundHalfEven (x / q)" by (rule roundHalfEven_nonneg)
  hence "0 \<le> of_int (roundHalfEven (x / q)) * q" using q by simp
  thus ?thesis using False assms
    unfolding roundToDouble_def q_def [symmetric] Let_def by simp
qed

lemma num_le_0_iff:
  "num_le (Finite 0) x \<longleftrightarrow> x = PosInfinity \<or> (\<exists>y. x = Finite y \<and> 0 \<le> y)"
  by (cases x) (auto simp: num_le_def)

lemma add_one_nonneg:
  assumes "num_le (Finite 0) x"
  shows "num_le (Finite 0) (num_add x (Finite 1))"
proof (cases x)
  case (Finite a)
  hence "0 \<le> a + 1" using assms by (simp add: num_le_0_iff)
  from roundToDouble_nonneg [OF this] show ?thesis by (simp add: Finite num_le_0_iff)
next
  case PosInfinity
  thus ?thesis by (simp add: num_le_0_iff)
next
  case NegInfinity
  thus ?thesis using assms by (simp add: num_le_0_iff)
next
  case NaN
  thus ?thesis using assms by (simp add: num_le_0_iff)
qed

lemma halve_nonneg:
  assumes "num_le (Finite 0) x"
  shows "num_le (Finite 0) (halve x)"
proof (cases x)
  case (Finite a)
  hence "0 \<le> a / 2" using assms by (simp add: num_le_0_iff)
  from roundToDouble_nonneg [OF this] show ?thesis by (simp add: Finite num_le_0_iff)
next
  case PosInfinity
  thus ?thesis by (simp add: num_le_0_iff)
next
  case NegInfinity
  thus ?thesis using assms by (simp add: num_le_0_iff)
next
  case NaN
  thus ?thesis using assms by (simp add: num_le_0_iff)
qed

lemma floor_count:
  assumes "num_le (Finite 0) x"
  shows "Math_floor x = PosInfinity \<or> (\<exists>m. Math_floor x = Finite (of_nat m))"
proof (cases x)
  case (Finite a)
  hence "0 \<le> \<lfloor>a\<rfloor>" using assms by (simp add: num_le_0_iff)
  hence "rat_of_int \<lfloor>a\<rfloor> = of_nat (nat \<lfloor>a\<rfloor>)" by simp
  thus ?thesis unfolding Finite Math_floor.simps by blast
qed (use assms in \<open>simp_all add: num_le_0_iff\<close>)

lemma ceil_count:
  assumes "num_le (Finite 0) x"
  shows "Math_ceil x = PosInfinity \<or> (\<exists>m. Math_ceil x = Finite (of_nat m))"
proof (cases x)
  case (Finite a)
  hence "0 \<le> \<lceil>a\<rceil>" using assms by (simp add: num_le_0_iff)
  hence "rat_of_int \<lceil>a\<rceil> = of_nat (nat \<lceil>a\<rceil>)" by simp
  thus ?thesis unfolding Finite Math_ceil.simps by blast
qed (use assms in \<open>simp_all add: num_le_0_iff\<close>)




subsection \<open>The default of a number\<close>





subsection \<open>Slices\<close>

lemma set_slice0: "set (slice0 xs e) \<subseteq> set xs"
  by (cases e) (auto simp: slice0_def dest: in_set_takeD)

lemma slice0_count: "slice0 xs (Finite (of_nat m)) = take m xs"
  by (simp add: slice0_def truncateNumber_def)

lemma slice0_all: "slice0 xs PosInfinity = take (length xs) xs"
  by (simp add: slice0_def)

lemma count_slice:
  assumes "x = PosInfinity \<or> (\<exists>m. x = Finite (of_nat m))"
  shows "\<exists>m. (x = Finite (of_nat m) \<or> x = PosInfinity \<and> m = length xs) \<and> slice0 xs x = take m xs"
  using assms slice0_count [of xs] slice0_all [of xs] by blast

section \<open>Properties of the menu recommender\<close>

subsection \<open>Composition sizing\<close>



lemma composition_fields:
  "n_vegetableDishes (calculateMenuComposition q) = Math_floor (halve (num_add q (Finite 1)))"
  "n_mainDishes (calculateMenuComposition q) = Math_ceil (halve (num_add q (Finite 1)))"
  "n_soups (calculateMenuComposition q) = (if num_less (Finite 4) q then Finite 1 else Finite 0)"
  "totalDishes (calculateMenuComposition q)
     = num_add (num_add (n_mainDishes (calculateMenuComposition q))
                  (n_vegetableDishes (calculateMenuComposition q)))
         (n_soups (calculateMenuComposition q))"
  by (simp_all add: calculateMenuComposition_def Let_def)




lemma composition_3:
  "calculateMenuComposition (Finite 3)
     = \<lparr>n_mainDishes = Finite 2, n_vegetableDishes = Finite 2, n_soups = Finite 0,
        totalDishes = Finite 4\<rparr>"
  by (simp add: calculateMenuComposition_def Let_def small_doubles)



text \<open>
  At \<open>2^53\<close> people the sum \<open>peopleCount + 1\<close> is rounded back to \<open>2^53\<close>: main and
  vegetable dishes are \<open>2^52\<close> each.
\<close>

lemma composition_beyond:
  "calculateMenuComposition (Finite (2 ^ 53))
     = \<lparr>n_mainDishes = Finite (2 ^ 52), n_vegetableDishes = Finite (2 ^ 52), n_soups = Finite 1,
        totalDishes = Finite (2 ^ 53)\<rparr>"
proof -
  have t: "num_add (Finite (2 ^ 53)) (Finite 1) = Finite (2 ^ 53)"
    using roundToDouble_beyond by simp
  have h: "halve (Finite (2 ^ 53)) = Finite (2 ^ 52)"
    using roundToDouble_int [of "2 ^ 52"] by simp
  have s: "num_add (Finite (2 ^ 52)) (Finite (2 ^ 52)) = Finite (2 ^ 53)"
    using roundToDouble_int [of "2 ^ 53"] by simp
  have gt: "num_less (Finite 4) (Finite (2 ^ 53))"
    by simp
  show ?thesis
    unfolding calculateMenuComposition_def Let_def t h
    using s t gt by simp
qed

text \<open>The fallback menu is made of slices of the three buckets, by the three counts.\<close>

lemma fallback_slices:
  "generateFallbackMenu c p =
     map (\<lambda>dish. \<lparr>item_dishName = dishName dish, recommendationReason = mainReason dish\<rparr>)
       (slice0 (mainDishes c) (n_mainDishes (calculateMenuComposition p)))
     @ map (\<lambda>dish. \<lparr>item_dishName = dishName dish, recommendationReason = vegetableReason\<rparr>)
         (slice0 (vegetableDishes c) (n_vegetableDishes (calculateMenuComposition p)))
     @ map (\<lambda>dish. \<lparr>item_dishName = dishName dish, recommendationReason = soupReason\<rparr>)
         (slice0 (soups c) (n_soups (calculateMenuComposition p)))"
  by (cases "num_less (Finite 4) p")
     (simp_all add: generateFallbackMenu_def Let_def composition_fields(3) slice0_def
        truncateNumber_def)




subsection \<open>Validation and fallback\<close>

lemma names_slice0: "dishName ` set (slice0 xs e) \<subseteq> dishName ` set xs"
  by (rule image_mono [OF set_slice0])

lemma fallback_name_set:
  "item_dishName ` set (generateFallbackMenu c p) \<subseteq>
     dishName ` set (slice0 (mainDishes c) (n_mainDishes (calculateMenuComposition p)))
     \<union> dishName ` set (slice0 (vegetableDishes c) (n_vegetableDishes (calculateMenuComposition p)))
     \<union> dishName ` set (slice0 (soups c) (n_soups (calculateMenuComposition p)))"
  unfolding fallback_slices
  by (simp add: image_Un image_image le_supI1 le_supI2)

lemma fallback_names:
  assumes "item \<in> set (generateFallbackMenu c p)"
  shows "item_dishName item \<in> availableDishNames c"
proof -
  have "item_dishName item \<in> item_dishName ` set (generateFallbackMenu c p)"
    using assms by (rule imageI)
  then have "item_dishName item \<in> dishName ` set (mainDishes c)
     \<union> dishName ` set (vegetableDishes c) \<union> dishName ` set (soups c)"
    using fallback_name_set [of c p]
      names_slice0 [of "mainDishes c" "n_mainDishes (calculateMenuComposition p)"]
      names_slice0 [of "vegetableDishes c" "n_vegetableDishes (calculateMenuComposition p)"]
      names_slice0 [of "soups c" "n_soups (calculateMenuComposition p)"]
    by blast
  then show ?thesis
    by (simp add: availableDishNames_def image_Un)
qed

lemma fallback_shape:
  assumes "num_le (Finite 0) p"
  shows "\<exists>m v s.
     (n_mainDishes (calculateMenuComposition p) = Finite (of_nat m)
      \<or> n_mainDishes (calculateMenuComposition p) = PosInfinity \<and> m = length (mainDishes c)) \<and>
     (n_vegetableDishes (calculateMenuComposition p) = Finite (of_nat v)
      \<or> n_vegetableDishes (calculateMenuComposition p) = PosInfinity
        \<and> v = length (vegetableDishes c)) \<and>
     n_soups (calculateMenuComposition p) = Finite (of_nat s) \<and>
     generateFallbackMenu c p =
       map (\<lambda>dish. \<lparr>item_dishName = dishName dish, recommendationReason = mainReason dish\<rparr>)
         (take m (mainDishes c))
       @ map (\<lambda>dish. \<lparr>item_dishName = dishName dish, recommendationReason = vegetableReason\<rparr>)
           (take v (vegetableDishes c))
       @ map (\<lambda>dish. \<lparr>item_dishName = dishName dish, recommendationReason = soupReason\<rparr>)
           (take s (soups c))"
proof -
  have h: "num_le (Finite 0) (halve (num_add p (Finite 1)))"
    by (intro halve_nonneg add_one_nonneg assms)
  obtain m where m:
    "n_mainDishes (calculateMenuComposition p) = Finite (of_nat m)
      \<or> n_mainDishes (calculateMenuComposition p) = PosInfinity \<and> m = length (mainDishes c)"
    "slice0 (mainDishes c) (n_mainDishes (calculateMenuComposition p)) = take m (mainDishes c)"
    using count_slice [OF ceil_count [OF h], of "mainDishes c"]
    unfolding composition_fields by blast
  obtain v where v:
    "n_vegetableDishes (calculateMenuComposition p) = Finite (of_nat v)
      \<or> n_vegetableDishes (calculateMenuComposition p) = PosInfinity
        \<and> v = length (vegetableDishes c)"
    "slice0 (vegetableDishes c) (n_vegetableDishes (calculateMenuComposition p))
       = take v (vegetableDishes c)"
    using count_slice [OF floor_count [OF h], of "vegetableDishes c"]
    unfolding composition_fields by blast
  define s :: nat where "s = (if num_less (Finite 4) p then 1 else 0)"
  have s: "n_soups (calculateMenuComposition p) = Finite (of_nat s)"
    by (simp add: composition_fields(3) s_def)
  have s': "slice0 (soups c) (n_soups (calculateMenuComposition p)) = take s (soups c)"
    unfolding s by (rule slice0_count)
  show ?thesis
    using m(1) v(1) s fallback_slices [of c p]
    unfolding m(2) v(2) s'
    by (intro exI [of _ m] exI [of _ v] exI [of _ s]) simp
qed

text \<open>
  Claim C2. Whatever the collaborator answers, every item of the returned menu names
  a dish of the candidate buckets. Every item of a collaborator's menu whose
  identifier is in none of the three buckets is left out of the returned menu and
  reported by a warning. When fewer valid items remain than the required number of
  dishes less one, or when the collaborator fails, the returned menu is the fallback
  menu; otherwise it is the list of valid items. For a people count that is not
  negative the three counts are natural numbers \<open>m\<close>, \<open>v\<close> and \<open>s\<close> (or the count is
  infinite and the whole bucket is taken), and the fallback menu is the first \<open>m\<close>
  main candidates, the first \<open>v\<close> vegetable candidates and the first \<open>s\<close> soup
  candidates, in bucket order, each with the fixed reason of its bucket.
\<close>

theorem menu_validation:
  "let p = numberOr (get (peopleCount preferences)) (Finite 2);
       composition = calculateMenuComposition p;
       required = num_add (num_add (n_mainDishes composition) (n_vegetableDishes composition))
                    (n_soups composition);
       valid = (\<lambda>item :: MenuRecommendation.
                  item_dishName item \<in> availableDishNames candidateDishes);
       returned = fst (recommendMenu answer preferences candidateDishes);
       warnings = snd (recommendMenu answer preferences candidateDishes)
   in (\<forall>item \<in> set returned. valid item) \<and>
      (\<forall>recommendedMenu. answer = Some recommendedMenu \<longrightarrow>
         (\<forall>item \<in> set recommendedMenu. \<not> valid item \<longrightarrow>
            item \<notin> set returned \<and> InvalidDishName (item_dishName item) \<in> set warnings) \<and>
         (num_less (Finite (of_nat (length (filter valid recommendedMenu))))
            (num_sub required (Finite 1)) \<longrightarrow>
            returned = generateFallbackMenu candidateDishes p) \<and>
         (\<not> num_less (Finite (of_nat (length (filter valid recommendedMenu))))
              (num_sub required (Finite 1)) \<longrightarrow>
            returned = filter valid recommendedMenu)) \<and>
      (answer = None \<longrightarrow> returned = generateFallbackMenu candidateDishes p) \<and>
      (num_le (Finite 0) p \<longrightarrow>
         (\<exists>m v s.
            (n_mainDishes composition = Finite (of_nat m)
             \<or> n_mainDishes composition = PosInfinity
               \<and> m = length (mainDishes candidateDishes)) \<and>
            (n_vegetableDishes composition = Finite (of_nat v)
             \<or> n_vegetableDishes composition = PosInfinity
               \<and> v = length (vegetableDishes candidateDishes)) \<and>
            n_soups composition = Finite (of_nat s) \<and>
            generateFallbackMenu candidateDishes p =
              map (\<lambda>dish. \<lparr>item_dishName = dishName dish,
                            recommendationReason = mainReason dish\<rparr>)
                (take m (mainDishes candidateDishes))
              @ map (\<lambda>dish. \<lparr>item_dishName = dishName dish,
                              recommendationReason = vegetableReason\<rparr>)
                  (take v (vegetableDishes candidateDishes))
              @ map (\<lambda>dish. \<lparr>item_dishName = dishName dish,
                              recommendationReason = soupReason\<rparr>)
                  (take s (soups candidateDishes))))"
proof -
  define p where "p = numberOr (get (peopleCount preferences)) (Finite 2)"
  define required where "required = num_add (num_add (n_mainDishes (calculateMenuComposition p))
     (n_vegetableDishes (calculateMenuComposition p))) (n_soups (calculateMenuComposition p))"
  define valid :: "MenuRecommendation \<Rightarrow> bool"
    where "valid = (\<lambda>item. item_dishName item \<in> availableDishNames candidateDishes)"
  define returned where "returned = fst (recommendMenu answer preferences candidateDishes)"
  define warnings where "warnings = snd (recommendMenu answer preferences candidateDishes)"
  define low where "low = (\<lambda>m. num_less (Finite (of_nat (length (filter valid m))))
                                  (num_sub required (Finite 1)))"
  have total: "totalDishes (calculateMenuComposition p) = required"
    unfolding required_def by (rule composition_fields(4))
  have none: "returned = generateFallbackMenu candidateDishes p" if "answer = None"
    using that by (simp add: returned_def recommendMenu_def p_def)
  have some_low: "returned = generateFallbackMenu candidateDishes p"
    if "answer = Some m" "low m" for m
    using that total
    by (simp add: returned_def recommendMenu_def p_def [symmetric] valid_def [symmetric] Let_def
          low_def)
  have some_ok: "returned = filter valid m"
    if "answer = Some m" "\<not> low m" for m
    using that total
    by (simp add: returned_def recommendMenu_def p_def [symmetric] valid_def [symmetric] Let_def
          low_def)
  have warned: "InvalidDishName (item_dishName item) \<in> set warnings"
    if "answer = Some m" "item \<in> set m" "\<not> valid item" for m item
    using that
    by (auto simp: warnings_def recommendMenu_def valid_def Let_def)
  have all_valid: "valid item" if "item \<in> set returned" for item
  proof (cases answer)
    case None
    then show ?thesis
      using that none fallback_names [of item candidateDishes p] by (simp add: valid_def)
  next
    case (Some m)
    show ?thesis
    proof (cases "low m")
      case True
      then show ?thesis
        using that some_low [OF Some] fallback_names [of item candidateDishes p]
        by (simp add: valid_def)
    next
      case False
      then show ?thesis
        using that some_ok [OF Some] by simp
    qed
  qed
  have dropped: "item \<notin> set returned" if "\<not> valid item" for item
    using that all_valid by blast
  note shape = fallback_shape [of p candidateDishes]
  show ?thesis
    unfolding Let_def p_def [symmetric] required_def [symmetric] valid_def [symmetric]
      returned_def [symmetric] warnings_def [symmetric]
    using none some_low some_ok warned all_valid dropped shape
    unfolding low_def
    by blast
qed

text \<open>The recommender on the example buckets, for three people (four dishes required).\<close>

lemma threePeople_count: "numberOr (get (peopleCount threePeople)) (Finite 2) = Finite 3"
  by (simp add: threePeople_def get_def numberOr_def)

lemma required_3:
  "num_sub (num_add (num_add (Finite 2) (Finite 2)) (Finite 0)) (Finite 1) = Finite 3"
  by (simp add: num_sub_def small_doubles)

lemma example_names:
  "availableDishNames exampleCandidates =
     {ascii ''M1'', ascii ''M2'', ascii ''M3'', ascii ''V1'', ascii ''V2'', ascii ''S1''}"
  by (auto simp: availableDishNames_def exampleCandidates_def exampleDish_def)

lemma example_valid:
  "item_dishName (menuItem (ascii ''M1'')) \<in> availableDishNames exampleCandidates"
  "item_dishName (menuItem (ascii ''M3'')) \<in> availableDishNames exampleCandidates"
  "item_dishName (menuItem (ascii ''V1'')) \<in> availableDishNames exampleCandidates"
  "item_dishName (menuItem (ascii ''Ghost'')) \<notin> availableDishNames exampleCandidates"
  by (simp_all add: example_names menuItem_def ascii_def)

lemma example_fallback_names:
  "map dishName (take 2 (mainDishes exampleCandidates)) = [ascii ''M1'', ascii ''M2'']"
  "map dishName (take 2 (vegetableDishes exampleCandidates)) = [ascii ''V1'', ascii ''V2'']"
  by (simp_all add: exampleCandidates_def exampleDish_def)


text \<open>
  The theorem at a menu with one valid item of two (the fallback is returned, the
  unknown name is warned about), at a menu with three valid items of four (the valid
  items are returned) and at a failed call.
\<close>

theorem menu_validation_witness:
  "map item_dishName
     (fst (recommendMenu (Some [menuItem (ascii ''M1''), menuItem (ascii ''Ghost'')])
             threePeople exampleCandidates))
     = [ascii ''M1'', ascii ''M2'', ascii ''V1'', ascii ''V2''] \<and>
   InvalidDishName (ascii ''Ghost'')
     \<in> set (snd (recommendMenu (Some [menuItem (ascii ''M1''), menuItem (ascii ''Ghost'')])
                   threePeople exampleCandidates)) \<and>
   fst (recommendMenu (Some [menuItem (ascii ''M1''), menuItem (ascii ''M3''),
                             menuItem (ascii ''Ghost''), menuItem (ascii ''V1'')])
          threePeople exampleCandidates)
     = [menuItem (ascii ''M1''), menuItem (ascii ''M3''), menuItem (ascii ''V1'')] \<and>
   map item_dishName (fst (recommendMenu None threePeople exampleCandidates))
     = [ascii ''M1'', ascii ''M2'', ascii ''V1'', ascii ''V2'']"
proof -
  have "\<exists>m v s. (2::rat) = of_nat m \<and> (2::rat) = of_nat v \<and> (0::rat) = of_nat s \<and>
          generateFallbackMenu exampleCandidates (Finite 3) =
              map (\<lambda>dish. \<lparr>item_dishName = dishName dish,
                            recommendationReason = mainReason dish\<rparr>)
                (take m (mainDishes exampleCandidates))
              @ map (\<lambda>dish. \<lparr>item_dishName = dishName dish,
                              recommendationReason = vegetableReason\<rparr>)
                  (take v (vegetableDishes exampleCandidates))
              @ map (\<lambda>dish. \<lparr>item_dishName = dishName dish,
                              recommendationReason = soupReason\<rparr>)
                  (take s (soups exampleCandidates))"
    using menu_validation [of threePeople exampleCandidates None]
    unfolding Let_def threePeople_count composition_3
    by (simp add: num_le_def)
  then obtain m v s where mvs: "(2::rat) = of_nat m" "(2::rat) = of_nat v" "(0::rat) = of_nat s"
    and gen: "generateFallbackMenu exampleCandidates (Finite 3) =
              map (\<lambda>dish. \<lparr>item_dishName = dishName dish,
                            recommendationReason = mainReason dish\<rparr>)
                (take m (mainDishes exampleCandidates))
              @ map (\<lambda>dish. \<lparr>item_dishName = dishName dish,
                              recommendationReason = vegetableReason\<rparr>)
                  (take v (vegetableDishes exampleCandidates))
              @ map (\<lambda>dish. \<lparr>item_dishName = dishName dish,
                              recommendationReason = soupReason\<rparr>)
                  (take s (soups exampleCandidates))"
    by blast
  have "m = 2" "v = 2" "s = 0"
    using mvs of_nat_eq_iff [of 2 m, where ?'a = rat] of_nat_eq_iff [of 2 v, where ?'a = rat]
    by simp_all
  hence fb: "map item_dishName (generateFallbackMenu exampleCandidates (Finite 3))
              = [ascii ''M1'', ascii ''M2'', ascii ''V1'', ascii ''V2'']"
    using example_fallback_names unfolding gen by (simp add: comp_def)
  have low: "fst (recommendMenu (Some [menuItem (ascii ''M1''), menuItem (ascii ''Ghost'')])
                    threePeople exampleCandidates)
                = generateFallbackMenu exampleCandidates (Finite 3)
     \<and> InvalidDishName (ascii ''Ghost'')
     \<in> set (snd (recommendMenu (Some [menuItem (ascii ''M1''), menuItem (ascii ''Ghost'')])
                   threePeople exampleCandidates))"
    using menu_validation [of threePeople exampleCandidates
                              "Some [menuItem (ascii ''M1''), menuItem (ascii ''Ghost'')]"]
      example_valid
    unfolding Let_def threePeople_count composition_3 MenuComposition.simps required_3
    by (simp add: menuItem_def)
  have ok: "fst (recommendMenu (Some [menuItem (ascii ''M1''), menuItem (ascii ''M3''),
                             menuItem (ascii ''Ghost''), menuItem (ascii ''V1'')])
          threePeople exampleCandidates)
     = [menuItem (ascii ''M1''), menuItem (ascii ''M3''), menuItem (ascii ''V1'')]"
    using menu_validation [of threePeople exampleCandidates
                              "Some [menuItem (ascii ''M1''), menuItem (ascii ''M3''),
                                     menuItem (ascii ''Ghost''), menuItem (ascii ''V1'')]"]
      example_valid
    unfolding Let_def threePeople_count composition_3 MenuComposition.simps required_3
    by simp
  have none: "fst (recommendMenu None threePeople exampleCandidates)
                = generateFallbackMenu exampleCandidates (Finite 3)"
    using menu_validation [of threePeople exampleCandidates None]
    unfolding Let_def threePeople_count
    by simp
  show ?thesis
    using fb low ok none by simp
qed

section \<open>Properties of the knowledge base\<close>

subsection \<open>The taste filter is soft\<close>

lemma matchesTaste_iff:
  "matchesTaste tastes recipe \<longleftrightarrow> set tastes \<inter> set (taste (idx_tags recipe)) \<noteq> {}"
  by (auto simp: matchesTaste_def list_ex_iff arr_includes_def)

lemma ensureLoaded_loaded: "isLoaded kb \<Longrightarrow> ensureLoaded files kb = (kb, Inr ())"
  by (simp add: ensureLoaded_def)

lemma tasteStage_no_match:
  assumes "get (tastePreferences preferences) = Some tastes"
    and "\<forall>recipe \<in> set index. set tastes \<inter> set (taste (idx_tags recipe)) = {}"
  shows "tasteStage preferences index = (index, True)"
proof -
  have "filter (matchesTaste tastes) index = []"
    using assms(2) by (simp add: filter_empty_conv matchesTaste_iff)
  then show ?thesis
    using assms(1) by (simp add: tasteStage_def)
qed

lemma tasteStage_without: "tasteStage (preferences\<lparr>tastePreferences := Absent\<rparr>) index = (index, True)"
  by (simp add: tasteStage_def hasLength_def get_def)

lemma tasteStage_match:
  assumes "get (tastePreferences preferences) = Some tastes"
    and "\<exists>recipe \<in> set index. set tastes \<inter> set (taste (idx_tags recipe)) \<noteq> {}"
  shows "tasteStage preferences index =
           (filter (\<lambda>recipe. set tastes \<inter> set (taste (idx_tags recipe)) \<noteq> {}) index, False)"
proof -
  have eq: "filter (matchesTaste tastes) index
          = filter (\<lambda>recipe. set tastes \<inter> set (taste (idx_tags recipe)) \<noteq> {}) index"
    by (induction index) (simp_all add: matchesTaste_iff)
  have ne: "filter (matchesTaste tastes) index \<noteq> []"
    using assms(2) by (simp add: filter_empty_conv matchesTaste_iff)
  have "tastes \<noteq> []"
    using assms(2) by auto
  then have "hasLength (tastePreferences preferences)"
    using assms(1) by (simp add: hasLength_def)
  then show ?thesis
    using assms(1) ne eq by (simp add: tasteStage_def Let_def)
qed

lemma sortStage_without [simp]:
  "sortStage (preferences\<lparr>tastePreferences := t\<rparr>) working kb = sortStage preferences working kb"
  by (simp add: sortStage_def specialGroupScore_def)

lemma exclusionStage_without [simp]:
  "exclusionStage lower data (preferences\<lparr>tastePreferences := t\<rparr>) candidates
     = exclusionStage lower data preferences candidates"
  by (simp add: exclusionStage_def)

lemma sortStage_data: "recipesData (snd (sortStage preferences working kb)) = recipesData kb"
  by (simp add: sortStage_def Let_def)

lemma sortStage_candidates:
  "fst (sortStage preferences (candidates, shared) kb) = fst (sortStage preferences (candidates, shared') kb')"
  by (simp add: sortStage_def Let_def)

lemma searchRecipes_loaded:
  "isLoaded kb \<Longrightarrow>
   searchRecipes files lower kb preferences =
     (let working = tasteStage preferences (recipesIndex kb);
          (candidates, kb2) = sortStage preferences working kb
      in case exclusionStage lower (recipesData kb2) preferences candidates of
           Inl e \<Rightarrow> (kb2, Inl e)
         | Inr remaining \<Rightarrow>
             (kb2, Inr (map (\<lambda>recipe. recipesData kb2 (idx_dishName recipe)) remaining)))"
  by (simp add: searchRecipes_def ensureLoaded_loaded)

lemma search_result_loaded:
  "isLoaded kb \<Longrightarrow>
   snd (searchRecipes files lower kb preferences) =
     (case exclusionStage lower (recipesData kb) preferences
             (fst (sortStage preferences (tasteStage preferences (recipesIndex kb)) kb)) of
        Inl e \<Rightarrow> Inl e
      | Inr remaining \<Rightarrow> Inr (map (\<lambda>recipe. recipesData kb (idx_dishName recipe)) remaining))"
  using sortStage_data [of preferences "tasteStage preferences (recipesIndex kb)" kb]
  by (simp add: searchRecipes_loaded Let_def split_beta split: sum.split)


text \<open>
  Claim C4. For every loaded knowledge base and all preferences with taste preferences:
  when they intersect the taste tag set of no index entry, \<open>searchRecipes\<close> does
  exactly what it does with the taste preference removed (the same result, the same
  count, the same state afterwards); when they intersect the tag set of at least one
  entry, the working set after the taste stage is exactly the matching entries, in a
  fresh array, and the result is the one a search without taste preference gives on
  an index holding just the matching entries.
\<close>

theorem soft_filter_degradation:
  "isLoaded kb \<Longrightarrow> get (tastePreferences preferences) = Some tastes \<Longrightarrow>
   ((\<forall>recipe \<in> set (recipesIndex kb). set tastes \<inter> set (taste (idx_tags recipe)) = {}) \<longrightarrow>
      searchRecipes files lower kb preferences
        = searchRecipes files lower kb (preferences\<lparr>tastePreferences := Absent\<rparr>)) \<and>
   ((\<exists>recipe \<in> set (recipesIndex kb). set tastes \<inter> set (taste (idx_tags recipe)) \<noteq> {}) \<longrightarrow>
      tasteStage preferences (recipesIndex kb)
        = (filter (\<lambda>recipe. set tastes \<inter> set (taste (idx_tags recipe)) \<noteq> {}) (recipesIndex kb),
           False) \<and>
      snd (searchRecipes files lower kb preferences)
        = snd (searchRecipes files lower
                 (kb\<lparr>recipesIndex :=
                       filter (\<lambda>recipe. set tastes \<inter> set (taste (idx_tags recipe)) \<noteq> {})
                         (recipesIndex kb)\<rparr>)
                 (preferences\<lparr>tastePreferences := Absent\<rparr>)))"
proof -
  assume loaded: "isLoaded kb" and tastes: "get (tastePreferences preferences) = Some tastes"
  define matching where
    "matching = filter (\<lambda>recipe. set tastes \<inter> set (taste (idx_tags recipe)) \<noteq> {}) (recipesIndex kb)"
  have soft: "searchRecipes files lower kb preferences
        = searchRecipes files lower kb (preferences\<lparr>tastePreferences := Absent\<rparr>)"
    if "\<forall>recipe \<in> set (recipesIndex kb). set tastes \<inter> set (taste (idx_tags recipe)) = {}"
    using loaded tasteStage_no_match [OF tastes that] tasteStage_without [of preferences "recipesIndex kb"]
    by (simp add: searchRecipes_loaded)
  have stage: "tasteStage preferences (recipesIndex kb) = (matching, False)"
    if "\<exists>recipe \<in> set (recipesIndex kb). set tastes \<inter> set (taste (idx_tags recipe)) \<noteq> {}"
    using tasteStage_match [OF tastes that] by (simp add: matching_def)
  have replaced: "snd (searchRecipes files lower kb preferences)
        = snd (searchRecipes files lower (kb\<lparr>recipesIndex := matching\<rparr>)
                 (preferences\<lparr>tastePreferences := Absent\<rparr>))"
    if "\<exists>recipe \<in> set (recipesIndex kb). set tastes \<inter> set (taste (idx_tags recipe)) \<noteq> {}"
  proof -
    have "fst (sortStage preferences (matching, False) kb)
            = fst (sortStage preferences (matching, True) (kb\<lparr>recipesIndex := matching\<rparr>))"
      by (rule sortStage_candidates)
    then show ?thesis
      using loaded stage [OF that] tasteStage_without [of preferences matching]
      by (simp add: search_result_loaded split: sum.split)
  qed
  show ?thesis
    unfolding matching_def [symmetric]
    using soft stage replaced by blast
qed

subsection \<open>The example knowledge base\<close>

lemma names_distinct:
  "ascii ''Chicken'' \<noteq> ascii ''Greens''" "ascii ''Chicken'' \<noteq> ascii ''Hotpot''"
  "ascii ''Greens'' \<noteq> ascii ''Hotpot''" "ascii ''Greens'' \<noteq> ascii ''Chicken''"
  "ascii ''Hotpot'' \<noteq> ascii ''Chicken''" "ascii ''Hotpot'' \<noteq> ascii ''Greens''"
  by (simp_all add: ascii_def)

lemma dish_names:
  "dishName chicken = ascii ''Chicken''" "dishName greens = ascii ''Greens''"
  "dishName hotpot = ascii ''Hotpot''"
  by (simp_all add: chicken_def greens_def hotpot_def exampleDish_def)

lemma entry_names:
  "idx_dishName (indexEntry r) = dishName r" "idx_tags (indexEntry r) = tags r"
  "idx_category (indexEntry r) = category r" "idx_difficulty (indexEntry r) = difficulty r"
  by (simp_all add: indexEntry_def)

lemma example_lookup:
  "recipesData exampleKB (ascii ''Chicken'') = Some chicken"
  "recipesData exampleKB (ascii ''Greens'') = Some greens"
  "recipesData exampleKB (ascii ''Hotpot'') = Some hotpot"
  by (simp_all add: exampleKB_def names_distinct)

lemma inconsistent_lookup:
  "recipesData inconsistentKB (ascii ''Chicken'') = Some chicken"
  "recipesData inconsistentKB (ascii ''Greens'') = Some greens"
  "recipesData inconsistentKB (ascii ''Hotpot'') = None"
  by (simp_all add: inconsistentKB_def names_distinct)

lemma example_tastes:
  "taste (tags chicken) = [[0x9999]]" "taste (tags greens) = [[0x9999]]"
  "taste (tags hotpot) = [[0x8FA3]]"
  by (simp_all add: chicken_def greens_def hotpot_def exampleDish_def)

lemma example_suitability:
  "suitability (tags chicken) = []" "suitability (tags greens) = [kid_friendly, pregnancy_safe]"
  "suitability (tags hotpot) = []"
  by (simp_all add: chicken_def greens_def hotpot_def exampleDish_def)

lemma example_index:
  "recipesIndex exampleKB = [indexEntry chicken, indexEntry greens, indexEntry hotpot]"
  "recipesIndex inconsistentKB = [indexEntry chicken, indexEntry greens, indexEntry hotpot]"
  "isLoaded exampleKB" "isLoaded inconsistentKB"
  by (simp_all add: exampleKB_def inconsistentKB_def)

text \<open>A search without any preference returns the whole table in index order.\<close>

lemma stages_no_preferences:
  "tasteStage emptyPreferences index = (index, True)"
  "sortStage emptyPreferences working kb = (fst working, kb)"
  "exclusionStage lower data emptyPreferences candidates = Inr candidates"
  by (simp_all add: tasteStage_def sortStage_def exclusionStage_def emptyPreferences_def
        hasLength_def get_def)

lemma search_no_preferences:
  "isLoaded kb \<Longrightarrow>
   searchRecipes files lower kb emptyPreferences
     = (kb, Inr (map (\<lambda>recipe. recipesData kb (idx_dishName recipe)) (recipesIndex kb)))"
  by (simp add: searchRecipes_loaded stages_no_preferences)

lemma search_example_all:
  "searchRecipes noFiles toLowerCase_ascii exampleKB emptyPreferences
     = (exampleKB, Inr [Some chicken, Some greens, Some hotpot])"
  by (simp add: search_no_preferences example_index entry_names dish_names example_lookup)

lemma sour_matches_nothing:
  "get (tastePreferences sourPreferences) = Some [[0x9178]]"
  "\<forall>recipe \<in> set (recipesIndex exampleKB). set [[0x9178]] \<inter> set (taste (idx_tags recipe)) = {}"
  by (simp_all add: sourPreferences_def emptyPreferences_def get_def example_index entry_names
        example_tastes)

lemma hot_matches_hotpot:
  "get (tastePreferences hotPreferences) = Some [[0x8FA3]]"
  "\<exists>recipe \<in> set (recipesIndex exampleKB). set [[0x8FA3]] \<inter> set (taste (idx_tags recipe)) \<noteq> {}"
  "filter (\<lambda>recipe. set [[0x8FA3]] \<inter> set (taste (idx_tags recipe)) \<noteq> {}) (recipesIndex exampleKB)
     = [indexEntry hotpot]"
  by (simp_all add: hotPreferences_def emptyPreferences_def get_def example_index entry_names
        example_tastes)

lemma without_taste:
  "sourPreferences\<lparr>tastePreferences := Absent\<rparr> = emptyPreferences\<lparr>peopleCount := Value (Finite 2)\<rparr>"
  "hotPreferences\<lparr>tastePreferences := Absent\<rparr> = emptyPreferences\<lparr>peopleCount := Value (Finite 2)\<rparr>"
  by (simp_all add: sourPreferences_def hotPreferences_def emptyPreferences_def)

lemma stages_count_only:
  "tasteStage (emptyPreferences\<lparr>peopleCount := n\<rparr>) index = (index, True)"
  "sortStage (emptyPreferences\<lparr>peopleCount := n\<rparr>) working kb = (fst working, kb)"
  "exclusionStage lower data (emptyPreferences\<lparr>peopleCount := n\<rparr>) candidates = Inr candidates"
  by (simp_all add: tasteStage_def sortStage_def exclusionStage_def emptyPreferences_def
        hasLength_def get_def)

lemma search_count_only:
  "isLoaded kb \<Longrightarrow>
   searchRecipes files lower kb (emptyPreferences\<lparr>peopleCount := n\<rparr>)
     = (kb, Inr (map (\<lambda>recipe. recipesData kb (idx_dishName recipe)) (recipesIndex kb)))"
  by (simp add: searchRecipes_loaded stages_count_only)


text \<open>
  The theorem at a taste that no dish of the example has (all three dishes are
  returned, as without a taste) and at a taste that one dish has (that dish alone).
\<close>

theorem soft_filter_degradation_witness:
  "snd (searchRecipes noFiles toLowerCase_ascii exampleKB sourPreferences)
     = Inr [Some chicken, Some greens, Some hotpot] \<and>
   snd (searchRecipes noFiles toLowerCase_ascii exampleKB
          (sourPreferences\<lparr>tastePreferences := Absent\<rparr>))
     = Inr [Some chicken, Some greens, Some hotpot] \<and>
   tasteStage hotPreferences (recipesIndex exampleKB) = ([indexEntry hotpot], False) \<and>
   snd (searchRecipes noFiles toLowerCase_ascii exampleKB hotPreferences) = Inr [Some hotpot]"
proof -
  have all: "searchRecipes noFiles toLowerCase_ascii exampleKB
               (sourPreferences\<lparr>tastePreferences := Absent\<rparr>)
     = (exampleKB, Inr [Some chicken, Some greens, Some hotpot])"
    by (simp add: without_taste search_count_only example_index entry_names dish_names
          example_lookup)
  have sour: "searchRecipes noFiles toLowerCase_ascii exampleKB sourPreferences
        = searchRecipes noFiles toLowerCase_ascii exampleKB
            (sourPreferences\<lparr>tastePreferences := Absent\<rparr>)"
    using soft_filter_degradation [OF example_index(3) sour_matches_nothing(1),
            of noFiles toLowerCase_ascii] sour_matches_nothing(2)
    by blast
  have hot: "tasteStage hotPreferences (recipesIndex exampleKB) = ([indexEntry hotpot], False) \<and>
      snd (searchRecipes noFiles toLowerCase_ascii exampleKB hotPreferences)
        = snd (searchRecipes noFiles toLowerCase_ascii
                 (exampleKB\<lparr>recipesIndex := [indexEntry hotpot]\<rparr>)
                 (hotPreferences\<lparr>tastePreferences := Absent\<rparr>))"
    using soft_filter_degradation [OF example_index(3) hot_matches_hotpot(1),
            of noFiles toLowerCase_ascii] hot_matches_hotpot(2)
    unfolding hot_matches_hotpot(3)
    by blast
  have "snd (searchRecipes noFiles toLowerCase_ascii
                 (exampleKB\<lparr>recipesIndex := [indexEntry hotpot]\<rparr>)
                 (hotPreferences\<lparr>tastePreferences := Absent\<rparr>)) = Inr [Some hotpot]"
    by (simp add: without_taste search_count_only example_index entry_names dish_names
          example_lookup)
  then show ?thesis
    using all sour hot by simp
qed


subsection \<open>The special-group sort rewrites the index\<close>

lemma kid_scores:
  "specialGroupScore kidPreferences (indexEntry chicken) = 0"
  "specialGroupScore kidPreferences (indexEntry greens) = 2"
  "specialGroupScore kidPreferences (indexEntry hotpot) = 0"
  by (simp_all add: specialGroupScore_def kidPreferences_def emptyPreferences_def opt_includes_def
        get_def arr_includes_def entry_names example_suitability ascii_def kid_neq_pregnancy)

lemma kid_stages:
  "tasteStage kidPreferences index = (index, True)"
  "hasLength (specialGroup kidPreferences)"
  "exclusionStage lower data kidPreferences candidates = Inr candidates"
  by (simp_all add: tasteStage_def exclusionStage_def kidPreferences_def emptyPreferences_def
        hasLength_def get_def)

lemma kid_sorted:
  "sort_key (\<lambda>a. - specialGroupScore kidPreferences a)
     [indexEntry chicken, indexEntry greens, indexEntry hotpot]
     = [indexEntry greens, indexEntry chicken, indexEntry hotpot]"
  by (simp add: kid_scores)

lemma kid_search:
  "searchRecipes noFiles toLowerCase_ascii exampleKB kidPreferences
     = (exampleKB\<lparr>recipesIndex := [indexEntry greens, indexEntry chicken, indexEntry hotpot]\<rparr>,
        Inr [Some greens, Some chicken, Some hotpot])"
proof -
  have "sortStage kidPreferences
          ([indexEntry chicken, indexEntry greens, indexEntry hotpot], True) exampleKB
        = ([indexEntry greens, indexEntry chicken, indexEntry hotpot],
           exampleKB\<lparr>recipesIndex := [indexEntry greens, indexEntry chicken, indexEntry hotpot]\<rparr>)"
    unfolding sortStage_def fst_conv snd_conv kid_sorted Let_def
    by (simp add: kid_stages)
  then show ?thesis
    by (simp add: searchRecipes_loaded example_index kid_stages
          entry_names dish_names example_lookup)
qed

lemma entries_distinct: "indexEntry chicken \<noteq> indexEntry greens"
  using names_distinct(1) by (auto simp: indexEntry_def dish_names)


text \<open>
  What a search does leave alone on a loaded knowledge base: the data table, and the
  entries of the index as a set. The index itself is kept when there is no special
  group or when the taste filter has replaced the working set.
\<close>

lemma sortStage_index_set:
  "set (fst (sortStage preferences working kb)) = set (fst working)"
  by (simp add: sortStage_def Let_def)

lemma searchRecipes_keeps_data:
  assumes "isLoaded kb"
  shows "recipesData (fst (searchRecipes files lower kb preferences)) = recipesData kb \<and>
         isLoaded (fst (searchRecipes files lower kb preferences)) \<and>
         set (recipesIndex (fst (searchRecipes files lower kb preferences)))
           = set (recipesIndex kb)"
proof -
  define working where "working = tasteStage preferences (recipesIndex kb)"
  have shared: "snd working \<Longrightarrow> fst working = recipesIndex kb"
    by (auto simp: working_def tasteStage_def Let_def split: if_splits)
  have "fst (searchRecipes files lower kb preferences) = snd (sortStage preferences working kb)"
    using assms
    by (simp add: searchRecipes_loaded working_def Let_def split_beta split: sum.split)
  moreover have "recipesData (snd (sortStage preferences working kb)) = recipesData kb"
    by (rule sortStage_data)
  moreover have "isLoaded (snd (sortStage preferences working kb))"
    using assms by (simp add: sortStage_def Let_def)
  moreover have "set (recipesIndex (snd (sortStage preferences working kb))) = set (recipesIndex kb)"
    using shared by (simp add: sortStage_def Let_def)
  ultimately show ?thesis
    by simp
qed

lemma searchRecipes_keeps_index:
  assumes "isLoaded kb"
    and "\<not> hasLength (specialGroup preferences)
         \<or> \<not> snd (tasteStage preferences (recipesIndex kb))"
  shows "fst (searchRecipes files lower kb preferences) = kb"
proof -
  have "snd (sortStage preferences (tasteStage preferences (recipesIndex kb)) kb) = kb"
    using assms(2) by (auto simp: sortStage_def Let_def)
  then show ?thesis
    using assms(1)
    by (simp add: searchRecipes_loaded Let_def split_beta split: sum.split)
qed


text \<open>
  Claim C9 says that a search leaves the stored index as it was. Without a taste
  filter the working set is the index array itself and the sort is in place: after a
  search for a child the index of the example starts with the kid-friendly dish, and a
  later search without preferences returns the dishes in the new order.
\<close>

theorem search_reorders_index:
  "recipesIndex exampleKB = [indexEntry chicken, indexEntry greens, indexEntry hotpot] \<and>
   recipesIndex (fst (searchRecipes noFiles toLowerCase_ascii exampleKB kidPreferences))
     = [indexEntry greens, indexEntry chicken, indexEntry hotpot] \<and>
   recipesIndex (fst (searchRecipes noFiles toLowerCase_ascii exampleKB kidPreferences))
     \<noteq> recipesIndex exampleKB \<and>
   snd (searchRecipes noFiles toLowerCase_ascii exampleKB emptyPreferences)
     = Inr [Some chicken, Some greens, Some hotpot] \<and>
   snd (searchRecipes noFiles toLowerCase_ascii
          (fst (searchRecipes noFiles toLowerCase_ascii exampleKB kidPreferences)) emptyPreferences)
     = Inr [Some greens, Some chicken, Some hotpot]"
proof -
  have "searchRecipes noFiles toLowerCase_ascii
          (exampleKB\<lparr>recipesIndex := [indexEntry greens, indexEntry chicken, indexEntry hotpot]\<rparr>)
          emptyPreferences
      = (exampleKB\<lparr>recipesIndex := [indexEntry greens, indexEntry chicken, indexEntry hotpot]\<rparr>,
         Inr [Some greens, Some chicken, Some hotpot])"
    by (simp add: search_no_preferences example_index entry_names dish_names example_lookup)
  then show ?thesis
    using entries_distinct
    by (simp add: kid_search search_example_all example_index)
qed


subsection \<open>An index entry without a record\<close>

lemma exclusion_stages:
  "tasteStage exclusionPreferences index = (index, True)"
  "sortStage exclusionPreferences working kb = (fst working, kb)"
  "hasLength (ingredientExclusions exclusionPreferences)"
  by (simp_all add: tasteStage_def sortStage_def exclusionPreferences_def emptyPreferences_def
        hasLength_def get_def)

lemma exclusion_throws:
  "exclusionStage toLowerCase_ascii (recipesData inconsistentKB) exclusionPreferences
     [indexEntry chicken, indexEntry greens, indexEntry hotpot] = Inl TypeError"
  by (simp add: exclusionStage_def exclusion_stages entry_names dish_names inconsistent_lookup)


text \<open>The one query that filters missing records out.\<close>

lemma getRecipesByCategory_recovers:
  assumes "isLoaded kb"
  shows "\<exists>found. getRecipesByCategory files kb cat = (kb, Inr found) \<and> None \<notin> set found"
  using assms by (simp add: getRecipesByCategory_def ensureLoaded_loaded)

text \<open>
  Claim C10 says that every query recovers from an index entry whose record is
  missing. On the example, \<open>searchRecipes\<close> without exclusions and
  \<open>getRecipesByDifficulty\<close> return the missing record as an \<open>undefined\<close> element,
  \<open>searchRecipes\<close> with an exclusion throws, and only \<open>getRecipesByCategory\<close>
  leaves the missing record out.
\<close>

theorem missing_record_not_recovered:
  "searchRecipes noFiles toLowerCase_ascii inconsistentKB emptyPreferences
     = (inconsistentKB, Inr [Some chicken, Some greens, None]) \<and>
   searchRecipes noFiles toLowerCase_ascii inconsistentKB exclusionPreferences
     = (inconsistentKB, Inl TypeError) \<and>
   getRecipesByDifficulty noFiles inconsistentKB 5
     = (inconsistentKB, Inr [Some chicken, Some greens, None]) \<and>
   getRecipesByCategory noFiles inconsistentKB (ascii ''meat_dish'')
     = (inconsistentKB, Inr [Some chicken])"
proof -
  have a: "searchRecipes noFiles toLowerCase_ascii inconsistentKB emptyPreferences
     = (inconsistentKB, Inr [Some chicken, Some greens, None])"
    by (simp add: search_no_preferences example_index entry_names dish_names inconsistent_lookup)
  have b: "searchRecipes noFiles toLowerCase_ascii inconsistentKB exclusionPreferences
     = (inconsistentKB, Inl TypeError)"
    by (simp add: searchRecipes_loaded example_index exclusion_stages exclusion_throws)
  have diff: "difficulty chicken = Some 1" "difficulty greens = Some 1" "difficulty hotpot = Some 1"
    by (simp_all add: chicken_def greens_def hotpot_def exampleDish_def)
  have c: "getRecipesByDifficulty noFiles inconsistentKB 5
     = (inconsistentKB, Inr [Some chicken, Some greens, None])"
    by (simp add: getRecipesByDifficulty_def ensureLoaded_loaded example_index entry_names
          diff orNumber_def dish_names inconsistent_lookup)
  have cat: "category chicken = ascii ''meat_dish''" "category greens = ascii ''vegetable_dish''"
     "category hotpot = ascii ''meat_dish''"
    by (simp_all add: chicken_def greens_def hotpot_def exampleDish_def)
  have d: "getRecipesByCategory noFiles inconsistentKB (ascii ''meat_dish'')
     = (inconsistentKB, Inr [Some chicken])"
    using vegetable_dish_distinct(2)
    by (simp add: getRecipesByCategory_def ensureLoaded_loaded example_index entry_names
          cat dish_names inconsistent_lookup)
  show ?thesis using a b c d by simp
qed

section \<open>Properties of the conversation engine\<close>

subsection \<open>Merging preferences\<close>

lemma spread_Absent [simp]: "spread old Absent = old"
  by (simp add: spread_def)

lemma spread_present: "new \<noteq> Absent \<Longrightarrow> spread old new = new"
  by (cases new) (simp_all add: spread_def)


text \<open>
  \<open>updateUserPreferences\<close> is the object spread \<open>{...old, ...new}\<close>: a key of the new
  object replaces the accumulated value whenever the key is present, and the
  accumulated value stays where the new object has no such key.
\<close>

lemma updateUserPreferences_spread:
  "let old = userPreferences eng;
       merged = userPreferences (updateUserPreferences new eng)
   in (peopleCount new = Absent \<longrightarrow> peopleCount merged = peopleCount old) \<and>
      (peopleCount new \<noteq> Absent \<longrightarrow> peopleCount merged = peopleCount new) \<and>
      (tastePreferences new = Absent \<longrightarrow> tastePreferences merged = tastePreferences old) \<and>
      (tastePreferences new \<noteq> Absent \<longrightarrow> tastePreferences merged = tastePreferences new) \<and>
      (ingredientExclusions new = Absent \<longrightarrow>
         ingredientExclusions merged = ingredientExclusions old) \<and>
      (ingredientExclusions new \<noteq> Absent \<longrightarrow>
         ingredientExclusions merged = ingredientExclusions new) \<and>
      (specialGroup new = Absent \<longrightarrow> specialGroup merged = specialGroup old) \<and>
      (specialGroup new \<noteq> Absent \<longrightarrow> specialGroup merged = specialGroup new) \<and>
      (maxCookingTimeMinutes new = Absent \<longrightarrow>
         maxCookingTimeMinutes merged = maxCookingTimeMinutes old) \<and>
      (maxCookingTimeMinutes new \<noteq> Absent \<longrightarrow>
         maxCookingTimeMinutes merged = maxCookingTimeMinutes new) \<and>
      updateUserPreferences new eng = eng\<lparr>userPreferences := merged\<rparr>"
  by (simp add: Let_def updateUserPreferences_def spread_present)

lemma mapTaste_empty:
  "mapTastePreferences (emptyPreferences\<lparr>tastePreferences := Value []\<rparr>)
     = emptyPreferences\<lparr>tastePreferences := Value []\<rparr>"
  by (simp add: mapTastePreferences_def emptyPreferences_def get_def inInsertionOrder_def)

text \<open>An extracted empty list of tastes replaces the accumulated taste.\<close>

lemma extracted_empty_list_replaces_taste:
  "tastePreferences (userPreferences proposingEngine) = Value [[0x8FA3]] \<and>
   tastePreferences (userPreferences
      (updateUserPreferences
         (extractIntent (Some (emptyPreferences\<lparr>tastePreferences := Value []\<rparr>)))
         proposingEngine)) = Value []"
proof -
  have "extractIntent (Some (emptyPreferences\<lparr>tastePreferences := Value []\<rparr>))
          = emptyPreferences\<lparr>tastePreferences := Value []\<rparr>"
    by (simp add: extractIntent_def mapTaste_empty)
  then show ?thesis
    by (simp add: updateUserPreferences_def spread_def proposingEngine_def hotPreferences_def
          emptyPreferences_def)
qed

text \<open>
  When the collaborator fails, the \<open>catch\<close> block of \<open>extractIntent\<close> returns an
  object that holds all five keys, each with the value \<open>undefined\<close>.
\<close>

lemma failed_extraction_clears_preferences:
  "userPreferences (updateUserPreferences (extractIntent None) eng)
     = \<lparr>peopleCount = Undefined, tastePreferences = Undefined,
        ingredientExclusions = Undefined, specialGroup = Undefined,
        maxCookingTimeMinutes = Undefined\<rparr>"
  by (simp add: extractIntent_def updateUserPreferences_def spread_def)

lemma nothing_known_is_invalid:
  "validatePreferences \<lparr>peopleCount = Undefined, tastePreferences = Undefined,
        ingredientExclusions = Undefined, specialGroup = Undefined,
        maxCookingTimeMinutes = Undefined\<rparr>
     = \<lparr>isValid = False, missingInfo = [MissingPeopleCount, MissingTasteOrSpecialNeed],
        suggestions = [AskPeopleCount, AskTaste]\<rparr>"
  by (simp add: validatePreferences_def truthy_def hasLength_def opt_includes_def get_def)

text \<open>
  Claim C6. The claim has a failed intent extraction leave every accumulated
  preference field as it was, as if nothing new had been extracted. The code does
  otherwise. The engine \<open>collectingEngine\<close> is gathering preferences and holds a
  people count of three and an excluded ingredient. In a turn whose intent extraction
  fails, the object returned by \<open>extractIntent\<close> is merged over the accumulated
  preferences: after the turn all five fields are \<open>undefined\<close>, the people count and
  the exclusion are lost, and the reply asks for the people count again.
\<close>

theorem failed_extraction_wipes_preferences:
  "state collectingEngine = AWAITING_PREFERENCES \<and>
   peopleCount (userPreferences collectingEngine) = Value (Finite 3) \<and>
   ingredientExclusions (userPreferences collectingEngine) = Value [ascii ''peanut''] \<and>
   intentExtraction failingExtraction firstWords
     (messages (addMessage User (Typed firstWords) collectingEngine)) = None \<and>
   userPreferences (fst (processUserInput failingExtraction collectingEngine firstWords))
     = \<lparr>peopleCount = Undefined, tastePreferences = Undefined,
        ingredientExclusions = Undefined, specialGroup = Undefined,
        maxCookingTimeMinutes = Undefined\<rparr> \<and>
   get (peopleCount
          (userPreferences (fst (processUserInput failingExtraction collectingEngine firstWords))))
     = None \<and>
   get (ingredientExclusions
          (userPreferences (fst (processUserInput failingExtraction collectingEngine firstWords))))
     = None \<and>
   snd (processUserInput failingExtraction collectingEngine firstWords)
     = (NeedMoreInformation [MissingPeopleCount, MissingTasteOrSpecialNeed]
          [AskPeopleCount, AskTaste],
        AWAITING_PREFERENCES)"
proof -
  define eng0 where "eng0 = addMessage User (Typed firstWords) collectingEngine"
  have st: "state eng0 = AWAITING_PREFERENCES"
    by (simp add: eng0_def addMessage_def collectingEngine_def freshEngine_def)
  have failed: "intentExtraction failingExtraction firstWords (messages eng0) = None"
    by (simp add: failingExtraction_def)
  have turn: "handlePreferenceInput failingExtraction eng0 firstWords
     = (updateUserPreferences (extractIntent None) eng0,
        Inr (NeedMoreInformation [MissingPeopleCount, MissingTasteOrSpecialNeed]
               [AskPeopleCount, AskTaste],
             AWAITING_PREFERENCES))"
    unfolding handlePreferenceInput_def failed Let_def failed_extraction_clears_preferences
      nothing_known_is_invalid
    by simp
  have p: "processUserInput failingExtraction collectingEngine firstWords
     = (updateUserPreferences (extractIntent None) eng0,
        NeedMoreInformation [MissingPeopleCount, MissingTasteOrSpecialNeed]
          [AskPeopleCount, AskTaste],
        AWAITING_PREFERENCES)"
    unfolding processUserInput_def eng0_def [symmetric] dispatch_def st
    by (simp add: turn)
  have before: "state collectingEngine = AWAITING_PREFERENCES"
    "peopleCount (userPreferences collectingEngine) = Value (Finite 3)"
    "ingredientExclusions (userPreferences collectingEngine) = Value [ascii ''peanut'']"
    by (simp_all add: collectingEngine_def freshEngine_def emptyPreferences_def)
  show ?thesis
    unfolding p fst_conv snd_conv failed_extraction_clears_preferences
    using before failed
    by (simp add: get_def eng0_def)
qed

subsection \<open>An error in a turn\<close>

lemma updateUserPreferences_frame [simp]:
  "state (updateUserPreferences p eng) = state eng"
  "messages (updateUserPreferences p eng) = messages eng"
  "recommendedMenu (updateUserPreferences p eng) = recommendedMenu eng"
  "confirmedMenu (updateUserPreferences p eng) = confirmedMenu eng"
  "knowledgeBase (updateUserPreferences p eng) = knowledgeBase eng"
  by (simp_all add: updateUserPreferences_def)

lemma handlePreferenceInput_throws:
  assumes "handlePreferenceInput env eng userInput = (eng', Inl e)"
  shows "eng' = (updateUserPreferences
                   (extractIntent (intentExtraction env userInput (messages eng))) eng)
                \<lparr>knowledgeBase := knowledgeBase eng'\<rparr>"
  using assms
  by (auto simp: handlePreferenceInput_def Let_def split: if_splits prod.splits sum.splits)

lemma handleShoppingListGeneration_returns:
  "snd (handleShoppingListGeneration env eng) \<noteq> Inl e"
  by (simp add: handleShoppingListGeneration_def Let_def)

lemma handleWorkflowPlanning_returns: "snd (handleWorkflowPlanning env eng) \<noteq> Inl e"
  by (simp add: handleWorkflowPlanning_def Let_def)

lemma handleQuestionInput_returns: "snd (handleQuestionInput env eng userInput) \<noteq> Inl e"
  by (simp add: handleQuestionInput_def split: option.split)

lemma confirmMenu_throws:
  assumes "confirmMenu env eng names = (eng', Inl e)"
  shows "eng' = eng\<lparr>knowledgeBase := knowledgeBase eng'\<rparr>"
  using assms by (auto simp: confirmMenu_def split: prod.splits sum.splits)

lemma replaceDish_session:
  assumes "replaceDish env eng old = (eng', r)"
  shows "eng' = eng\<lparr>knowledgeBase := knowledgeBase eng'\<rparr>"
  using assms by (auto simp: replaceDish_def Let_def split: prod.splits sum.splits)

lemma handleMenuResponse_throws:
  assumes "handleMenuResponse env eng userInput = (eng', Inl e)"
  shows "eng' = eng\<lparr>knowledgeBase := knowledgeBase eng'\<rparr> \<or>
         eng' = (updateUserPreferences
                   (extractIntent (intentExtraction env userInput (messages eng))) eng)
                \<lparr>knowledgeBase := knowledgeBase eng'\<rparr>"
proof (cases "interpretFollowUpRequest (toLowerCase env) (intentExtraction env userInput [])
               userInput")
  case (modify_preferences newPreferences)
  then have "handlePreferenceInput env eng userInput = (eng', Inl e)"
    using assms by (simp add: handleMenuResponse_def)
  then show ?thesis
    using handlePreferenceInput_throws by blast
next
  case confirm_menu
  show ?thesis
  proof (cases "confirmMenu env eng (map item_dishName (recommendedMenu eng))")
    case (Pair eng1 r)
    show ?thesis
    proof (cases r)
      case (Inl e1)
      then have "eng' = eng1"
        using assms confirm_menu Pair by (simp add: handleMenuResponse_def)
      then show ?thesis
        using confirmMenu_throws Pair Inl by blast
    next
      case (Inr u)
      then have "handleShoppingListGeneration env eng1 = (eng', Inl e)"
        using assms confirm_menu Pair by (simp add: handleMenuResponse_def)
      then show ?thesis
        using handleShoppingListGeneration_returns [of env eng1 e] by simp
    qed
  qed
next
  case replace_dish
  show ?thesis
  proof (cases "replaceMatch userInput")
    case None
    then show ?thesis
      using assms replace_dish by (simp add: handleMenuResponse_def)
  next
    case (Some captured)
    obtain eng1 r where r: "replaceDish env eng (trim captured) = (eng1, r)"
      by (cases "replaceDish env eng (trim captured)")
    then have "eng' = eng1"
      using assms replace_dish Some
      by (cases r) (simp_all add: handleMenuResponse_def split: if_splits)
    then show ?thesis
      using replaceDish_session [OF r] by simp
  qed
next
  case ask_question
  then show ?thesis
    using assms by (simp add: handleMenuResponse_def)
next
  case unknown
  then show ?thesis
    using assms by (simp add: handleMenuResponse_def)
qed

lemma dispatch_throws:
  assumes "dispatch env eng userInput = (eng', Inl e)"
  shows "eng' = eng\<lparr>knowledgeBase := knowledgeBase eng'\<rparr> \<or>
         eng' = (updateUserPreferences
                   (extractIntent (intentExtraction env userInput (messages eng))) eng)
                \<lparr>knowledgeBase := knowledgeBase eng'\<rparr>"
proof (cases "state eng")
  case AWAITING_PREFERENCES
  then show ?thesis
    using assms handlePreferenceInput_throws by (simp add: dispatch_def)
next
  case RECOMMENDING_MENU
  then show ?thesis
    using assms handleMenuResponse_throws by (simp add: dispatch_def)
next
  case GENERATING_SHOPPING_LIST
  then show ?thesis
    using assms handleShoppingListGeneration_returns [of env eng e] by (simp add: dispatch_def)
next
  case PLANNING_WORKFLOW
  then show ?thesis
    using assms handleWorkflowPlanning_returns [of env eng e] by (simp add: dispatch_def)
next
  case READY_FOR_QUESTIONS
  then show ?thesis
    using assms handleQuestionInput_returns [of env eng userInput e] by (simp add: dispatch_def)
qed


text \<open>
  Claim C7, as the code has it. For every dialogue state and every user turn, if the
  handler of the turn throws, \<open>processUserInput\<close> replies with the error message and
  the dialogue state of before the call; the dialogue state, the proposed menu and the
  confirmed records of the session are those of before the call, and the history has
  gained the user's message. The accumulated preferences are not rolled back: they
  are those of before the call or, when the preference handler had merged the fields
  extracted in this turn before the error, the merged ones.
\<close>

theorem error_reported_without_rollback:
  assumes "snd (dispatch env (addMessage User (Typed userInput) eng) userInput) = Inl e"
  shows "\<exists>eng'. processUserInput env eng userInput = (eng', ErrorMessage e, state eng) \<and>
           state eng' = state eng \<and>
           recommendedMenu eng' = recommendedMenu eng \<and>
           confirmedMenu eng' = confirmedMenu eng \<and>
           messages eng' = messages eng @ [\<lparr>role = User, content = Typed userInput\<rparr>] \<and>
           (userPreferences eng' = userPreferences eng \<or>
            userPreferences eng' =
              userPreferences
                (updateUserPreferences
                   (extractIntent
                      (intentExtraction env userInput
                         (messages eng @ [\<lparr>role = User, content = Typed userInput\<rparr>])))
                   eng))"
proof -
  define eng1 where "eng1 = addMessage User (Typed userInput) eng"
  obtain eng' where d: "dispatch env eng1 userInput = (eng', Inl e)"
    using assms by (cases "dispatch env eng1 userInput") (simp add: eng1_def)
  have p: "processUserInput env eng userInput = (eng', ErrorMessage e, state eng')"
    using d by (simp add: processUserInput_def eng1_def)
  have eng1: "state eng1 = state eng" "recommendedMenu eng1 = recommendedMenu eng"
      "confirmedMenu eng1 = confirmedMenu eng" "userPreferences eng1 = userPreferences eng"
      "messages eng1 = messages eng @ [\<lparr>role = User, content = Typed userInput\<rparr>]"
    by (simp_all add: eng1_def addMessage_def)
  have merged: "userPreferences (updateUserPreferences q eng1)
                  = userPreferences (updateUserPreferences q eng)" for q
    by (simp add: updateUserPreferences_def eng1)
  from dispatch_throws [OF d]
  have "state eng' = state eng \<and>
           recommendedMenu eng' = recommendedMenu eng \<and>
           confirmedMenu eng' = confirmedMenu eng \<and>
           messages eng' = messages eng @ [\<lparr>role = User, content = Typed userInput\<rparr>] \<and>
           (userPreferences eng' = userPreferences eng \<or>
            userPreferences eng' =
              userPreferences
                (updateUserPreferences
                   (extractIntent
                      (intentExtraction env userInput
                         (messages eng @ [\<lparr>role = User, content = Typed userInput\<rparr>])))
                   eng))"
  proof
    assume a: "eng' = eng1\<lparr>knowledgeBase := knowledgeBase eng'\<rparr>"
    have "state eng' = state eng1" "recommendedMenu eng' = recommendedMenu eng1"
      "confirmedMenu eng' = confirmedMenu eng1" "userPreferences eng' = userPreferences eng1"
      "messages eng' = messages eng1"
      by (subst a, simp)+
    then show ?thesis
      by (simp add: eng1)
  next
    assume a: "eng' = (updateUserPreferences
                   (extractIntent (intentExtraction env userInput (messages eng1))) eng1)
                \<lparr>knowledgeBase := knowledgeBase eng'\<rparr>"
    have "state eng' = state eng1" "recommendedMenu eng' = recommendedMenu eng1"
      "confirmedMenu eng' = confirmedMenu eng1" "messages eng' = messages eng1"
      "userPreferences eng' = userPreferences (updateUserPreferences
                   (extractIntent (intentExtraction env userInput (messages eng1))) eng1)"
      by (subst a, simp)+
    then show ?thesis
      by (simp add: eng1 merged)
  qed
  then show ?thesis
    using p by simp
qed

lemma threeAndHot_mapped: "extractIntent (Some threeAndHot) = threeAndHot"
  by (simp add: extractIntent_def mapTastePreferences_def threeAndHot_def emptyPreferences_def
        get_def tasteMapping_def inInsertionOrder_def)

lemma threeAndHot_merged:
  "updateUserPreferences threeAndHot eng = eng\<lparr>userPreferences := threeAndHot\<rparr>"
  if "userPreferences eng = emptyPreferences"
  using that
  by (simp add: updateUserPreferences_def threeAndHot_def emptyPreferences_def spread_def)

lemma threeAndHot_valid: "isValid (validatePreferences threeAndHot)"
  by (simp add: validatePreferences_def threeAndHot_def emptyPreferences_def truthy_def
        hasLength_def get_def Let_def)

lemma nothing_to_load:
  "getRecommendedCandidates noFiles lower \<lparr>recipesData = Map.empty, recipesIndex = [], isLoaded = False\<rparr> p
     = (\<lparr>recipesData = Map.empty, recipesIndex = [], isLoaded = False\<rparr>, Inl LoadError)"
  by (simp add: getRecommendedCandidates_def ensureLoaded_def initialize_def loadData_def
        noFiles_def)

lemma first_turn_throws:
  "dispatch exampleTurn (addMessage User (Typed firstWords) freshEngine) firstWords
     = (freshEngine\<lparr>messages := [\<lparr>role = User, content = Typed firstWords\<rparr>],
                    userPreferences := threeAndHot\<rparr>, Inl LoadError)"
proof -
  define eng1 where "eng1 = addMessage User (Typed firstWords) freshEngine"
  have eng1: "eng1 = freshEngine\<lparr>messages := [\<lparr>role = User, content = Typed firstWords\<rparr>]\<rparr>"
    by (simp add: eng1_def addMessage_def freshEngine_def)
  have st: "state eng1 = AWAITING_PREFERENCES" and pr: "userPreferences eng1 = emptyPreferences"
    and kb: "knowledgeBase eng1 = \<lparr>recipesData = Map.empty, recipesIndex = [], isLoaded = False\<rparr>"
    by (simp_all add: eng1 freshEngine_def)
  have ex: "extractIntent (intentExtraction exampleTurn firstWords (messages eng1)) = threeAndHot"
    by (simp add: exampleTurn_def threeAndHot_mapped)
  have "handlePreferenceInput exampleTurn eng1 firstWords
          = (eng1\<lparr>userPreferences := threeAndHot\<rparr>, Inl LoadError)"
    unfolding handlePreferenceInput_def ex Let_def threeAndHot_merged [OF pr]
    by (simp add: threeAndHot_valid kb exampleTurn_def nothing_to_load)
  moreover have "dispatch exampleTurn eng1 firstWords
                   = handlePreferenceInput exampleTurn eng1 firstWords"
    by (simp add: dispatch_def st)
  ultimately have "dispatch exampleTurn eng1 firstWords
                     = (eng1\<lparr>userPreferences := threeAndHot\<rparr>, Inl LoadError)"
    by simp
  then show ?thesis
    unfolding eng1_def [symmetric] by (simp add: eng1)
qed


text \<open>
  The theorem at the first turn of an engine whose knowledge base cannot be loaded:
  the error is reported, and the preferences extracted in the turn stay merged.
\<close>

theorem error_reported_without_rollback_witness:
  "processUserInput exampleTurn freshEngine firstWords
     = (freshEngine\<lparr>messages := [\<lparr>role = User, content = Typed firstWords\<rparr>],
                    userPreferences := threeAndHot\<rparr>,
        ErrorMessage LoadError, AWAITING_PREFERENCES)"
proof -
  have thrown: "snd (dispatch exampleTurn (addMessage User (Typed firstWords) freshEngine)
                      firstWords) = Inl LoadError"
    by (simp add: first_turn_throws)
  obtain eng' where "processUserInput exampleTurn freshEngine firstWords
       = (eng', ErrorMessage LoadError, state freshEngine)"
    using error_reported_without_rollback [OF thrown] by blast
  moreover have "fst (processUserInput exampleTurn freshEngine firstWords)
      = freshEngine\<lparr>messages := [\<lparr>role = User, content = Typed firstWords\<rparr>],
                    userPreferences := threeAndHot\<rparr>"
    by (simp add: processUserInput_def first_turn_throws)
  moreover have "state freshEngine = AWAITING_PREFERENCES"
    by (simp add: freshEngine_def)
  ultimately show ?thesis
    by simp
qed


text \<open>
  Claim C7 as the specification words it keeps the accumulated preferences in their
  pre-call state. In the same turn the handler throws and the preferences change.
\<close>

theorem error_after_merge_counterexample:
  "snd (dispatch exampleTurn (addMessage User (Typed firstWords) freshEngine) firstWords)
     = Inl LoadError \<and>
   userPreferences freshEngine = emptyPreferences \<and>
   userPreferences (fst (processUserInput exampleTurn freshEngine firstWords)) = threeAndHot \<and>
   threeAndHot \<noteq> emptyPreferences"
  by (simp add: first_turn_throws processUserInput_def)
     (simp add: freshEngine_def threeAndHot_def emptyPreferences_def)


subsection \<open>Reset\<close>

text \<open>
  In the state \<open>READY_FOR_QUESTIONS\<close> an input whose lower-cased text contains one of
  the two reset phrases takes the session to \<open>AWAITING_PREFERENCES\<close> with the
  accumulated preferences, the proposed menu and the confirmed records cleared and
  the history reduced to the welcome message.
\<close>

lemma reset_from_ready_for_questions:
  assumes "state eng = READY_FOR_QUESTIONS"
    and "str_includes (toLowerCase env userInput) [0x91CD, 0x65B0, 0x5F00, 0x59CB]
         \<or> str_includes (toLowerCase env userInput) [0x91CD, 0x65B0, 0x89C4, 0x5212]"
  shows "\<exists>eng'. processUserInput env eng userInput
                  = (eng', WelcomeMessage, AWAITING_PREFERENCES) \<and>
           state eng' = AWAITING_PREFERENCES \<and>
           userPreferences eng' = emptyPreferences \<and>
           recommendedMenu eng' = [] \<and>
           confirmedMenu eng' = [] \<and>
           messages eng' = [\<lparr>role = Assistant, content = Rendered WelcomeMessage\<rparr>] \<and>
           knowledgeBase eng' = knowledgeBase eng"
  using assms
  by (simp add: processUserInput_def dispatch_def addMessage_def handleQuestionInput_def
        isResetRequest_def reset_def)

lemma resetWords_lower: "toLowerCase exampleTurn resetWords = resetWords"
  by (simp add: exampleTurn_def toLowerCase_ascii_def resetWords_def)

lemma resetWords_is_reset: "str_includes resetWords [0x91CD, 0x65B0, 0x5F00, 0x59CB]"
  by (simp add: resetWords_def)

lemma reset_from_ready_example:
  "processUserInput exampleTurn answeringEngine resetWords
     = (\<lparr>state = AWAITING_PREFERENCES,
         messages = [\<lparr>role = Assistant, content = Rendered WelcomeMessage\<rparr>],
         userPreferences = emptyPreferences, recommendedMenu = [], confirmedMenu = [],
         knowledgeBase = exampleKB\<rparr>, WelcomeMessage, AWAITING_PREFERENCES)"
proof -
  have ready: "state answeringEngine = READY_FOR_QUESTIONS"
    by (simp add: answeringEngine_def)
  have words: "str_includes (toLowerCase exampleTurn resetWords) [0x91CD, 0x65B0, 0x5F00, 0x59CB]
         \<or> str_includes (toLowerCase exampleTurn resetWords) [0x91CD, 0x65B0, 0x89C4, 0x5212]"
    by (simp add: resetWords_lower resetWords_is_reset)
  obtain eng' where e: "processUserInput exampleTurn answeringEngine resetWords
                  = (eng', WelcomeMessage, AWAITING_PREFERENCES)"
           "state eng' = AWAITING_PREFERENCES"
           "userPreferences eng' = emptyPreferences"
           "recommendedMenu eng' = []"
           "confirmedMenu eng' = []"
           "messages eng' = [\<lparr>role = Assistant, content = Rendered WelcomeMessage\<rparr>]"
           "knowledgeBase eng' = knowledgeBase answeringEngine"
    using reset_from_ready_for_questions [OF ready words] by blast
  have "knowledgeBase answeringEngine = exampleKB"
    by (simp add: answeringEngine_def)
  then have "eng' = \<lparr>state = AWAITING_PREFERENCES,
         messages = [\<lparr>role = Assistant, content = Rendered WelcomeMessage\<rparr>],
         userPreferences = emptyPreferences, recommendedMenu = [], confirmedMenu = [],
         knowledgeBase = exampleKB\<rparr>"
    using e(2-7) by (cases eng') simp
  then show ?thesis
    using e(1) by simp
qed

lemma resetWords_unknown:
  "interpretFollowUpRequest toLowerCase_ascii answer resetWords = unknown"
proof -
  have low: "toLowerCase_ascii resetWords = resetWords"
    by (simp add: toLowerCase_ascii_def resetWords_def)
  show ?thesis
    unfolding interpretFollowUpRequest_def low Let_def
    by (simp add: resetWords_def includesAny_def)
qed

text \<open>
  Claim C8. The claim has the reset phrase return the session to
  \<open>AWAITING_PREFERENCES\<close>, with preferences and menu cleared, from every dialogue
  state. The code does so in \<open>READY_FOR_QUESTIONS\<close> only. The engine
  \<open>proposingEngine\<close> is in the state \<open>RECOMMENDING_MENU\<close> with preferences and a
  proposed menu. The input is the reset phrase, the very phrase that resets the
  engine \<open>answeringEngine\<close>. \<open>handleMenuResponse\<close> does not test for it and
  \<open>interpretFollowUpRequest\<close> matches none of its patterns: the reply is "not
  understood", and the state, the preferences and the proposed menu stay as they
  were.
\<close>

theorem reset_ignored_when_recommending:
  "str_includes (toLowerCase exampleTurn resetWords) [0x91CD, 0x65B0, 0x5F00, 0x59CB] \<and>
   state proposingEngine = RECOMMENDING_MENU \<and>
   processUserInput exampleTurn proposingEngine resetWords
     = (proposingEngine\<lparr>messages := [\<lparr>role = User, content = Typed resetWords\<rparr>]\<rparr>,
        NotUnderstood, RECOMMENDING_MENU) \<and>
   state (fst (processUserInput exampleTurn proposingEngine resetWords))
     = RECOMMENDING_MENU \<and>
   userPreferences (fst (processUserInput exampleTurn proposingEngine resetWords))
     = hotPreferences \<and>
   recommendedMenu (fst (processUserInput exampleTurn proposingEngine resetWords))
     = [menuItem (ascii ''Hotpot'')]"
proof -
  have st: "state proposingEngine = RECOMMENDING_MENU"
    by (simp add: proposingEngine_def)
  have "handleMenuResponse exampleTurn eng resetWords = (eng, Inr (NotUnderstood, RECOMMENDING_MENU))"
    for eng
    by (simp add: handleMenuResponse_def exampleTurn_def resetWords_unknown)
  then have p: "processUserInput exampleTurn proposingEngine resetWords
     = (proposingEngine\<lparr>messages := [\<lparr>role = User, content = Typed resetWords\<rparr>]\<rparr>,
        NotUnderstood, RECOMMENDING_MENU)"
    by (simp add: processUserInput_def dispatch_def addMessage_def st)
       (simp add: proposingEngine_def)
  show ?thesis
    unfolding p
    by (simp add: resetWords_lower resetWords_is_reset st)
       (simp add: proposingEngine_def)
qed

end
